theory Spec2Isabelle
  imports Main "HOL-Library.Word" "HOL-Library.Sublist"
begin

unbundle bit_operations_syntax

section \<open>JavaScript values\<close>

text \<open>
  Strings that the code only compares or tests for a prefix (backend names, request
  paths, roles, permissions) are \<open>string\<close>. A user id is read one UTF-16 code unit
  at a time by \<open>charCodeAt\<close>, so it is a list of 16-bit code units.
\<close>

type_synonym utf16 = "16 word list"

text \<open>A value used as a condition: an absent or empty string is falsy.\<close>

definition truthy :: "utf16 option \<Rightarrow> bool" where
  "truthy v = (case v of None \<Rightarrow> False | Some str \<Rightarrow> str \<noteq> [])"

text \<open>
  \<open>a % b\<close> on integers takes the sign of the dividend. \<open>xs[i] || null\<close> reads an
  array of objects: outside the array the read is \<open>undefined\<close>, hence \<open>null\<close>.
\<close>

definition js_rem :: "int \<Rightarrow> int \<Rightarrow> int" where
  "js_rem a b = sgn a * (\<bar>a\<bar> mod \<bar>b\<bar>)"

definition js_at :: "'a list \<Rightarrow> int \<Rightarrow> 'a option" where
  "js_at xs i = (if 0 \<le> i \<and> i < int (length xs) then Some (xs ! nat i) else None)"

text \<open>
  \<open>n++\<close> on a number that counts up from 0: every integer up to \<open>2 ^ 53\<close> is a
  double, but \<open>2 ^ 53 + 1\<close> is not and rounds back to \<open>2 ^ 53\<close>, where the counter
  stays.
\<close>

definition js_incr :: "nat \<Rightarrow> nat" where
  "js_incr n = (if n < 2 ^ 53 then n + 1 else n)"

text \<open>\<open>xs.slice(-k)\<close>: the last \<open>k\<close> elements, all of them when there are fewer.\<close>

definition slice_last :: "nat \<Rightarrow> 'a list \<Rightarrow> 'a list" where
  "slice_last k xs = drop (length xs - k) xs"

section \<open>Types (types/index.ts)\<close>

record CoreConfig =
  name :: string
  url :: string
  healthCheck :: string
  weight :: nat
  isActive :: bool

record RequestMetrics =
  requestId :: "string option"
  http_method :: string
  path :: string
  targetCore :: string
  responseTime :: int
  statusCode :: nat
  timestamp :: int

record AuthUser =
  user_id :: utf16
  username :: string
  role :: string
  permissions :: "string list"

record SessionData =
  userId :: "utf16 option"
  userRole :: "string option"
  lastActivity :: "int option"

text \<open>
  The claims of a token as \<open>generateJWT\<close> writes them (\<open>userId\<close>, \<open>username\<close>,
  \<open>role\<close>) with the two fields the jsonwebtoken library adds, in seconds. A token is
  either such a payload signed with some secret, or a string that is no token at all.
\<close>

record JwtPayload =
  jwt_userId :: utf16
  jwt_username :: string
  jwt_role :: string
  iat :: int
  exp :: int

datatype jwt = Signed JwtPayload string | Malformed string

text \<open>
  \<open>req.user\<close> holds what a middleware stored there: a user of the user table
  (\<open>optionalAuth\<close>, session branch) or the decoded payload of a token.
\<close>

datatype principal = TableUser AuthUser | TokenClaims JwtPayload

text \<open>
  The \<open>Authorization\<close> header: \<open>Bearer tok\<close> is a value that starts with
  \<open>'Bearer '\<close>, \<open>tok\<close> being the rest (\<open>substring(7)\<close>); any other value is
  \<open>OtherScheme\<close>.
\<close>

datatype auth_header = Bearer jwt | OtherScheme string

text \<open>
  The part of an Express request that the code reads or writes. \<open>req_path\<close> is
  \<open>req.path\<close> as the running handler reads it: for a handler mounted under a
  prefix (\<open>app.use('/api', ...)\<close>) Express has removed the mount point from it.
  \<open>originalUrl\<close> is the path of the URL as the client sent it. \<open>session\<close> is
  \<open>None\<close> once the session has been destroyed.
\<close>

record Request =
  req_method :: string
  req_path :: string
  originalUrl :: string
  ip :: string
  session :: "SessionData option"
  user :: "principal option"
  authorization :: "auth_header option"
  xRequestId :: "string option"
  xForwardedFor :: "string option"
  xProxySource :: "string option"

text \<open>
  What the client receives: a JSON body sent with \<open>res.status(n).json(...)\<close>, of
  which the status, the \<open>error\<close> field and the \<open>requestId\<close> field (when the body
  has one) are kept; or the backend's own response relayed by the proxy, with the
  backend's status code; or no response at all, the connection of the client
  having been destroyed.
\<close>

datatype response =
  JsonError nat string "string option" | Upstream "nat option" | ConnectionReset

section \<open>Configuration (config/index.ts)\<close>

definition coreConfigs0 :: "CoreConfig list" where
  "coreConfigs0 =
    [\<lparr>name = ''core-api-1'', url = ''http://localhost:4001'', healthCheck = ''/health'',
       weight = 1, isActive = True\<rparr>,
     \<lparr>name = ''core-api-2'', url = ''http://localhost:4002'', healthCheck = ''/health'',
       weight = 1, isActive = True\<rparr>,
     \<lparr>name = ''core-api-3'', url = ''http://localhost:4003'', healthCheck = ''/health'',
       weight = 1, isActive = True\<rparr>]"

section \<open>ProxyService (services/proxyService.ts)\<close>

text \<open>
  The static fields of the class, with the module-level array \<open>coreConfigs\<close> they
  share. \<open>activeConfigs\<close> is built by \<open>coreConfigs.filter\<close>, so it holds the very
  objects of \<open>coreConfigs\<close>: it is a list of positions in \<open>coreConfigs\<close>, and a
  flag written to a backend is seen through every list that holds it.
\<close>

record ProxyService =
  coreConfigs :: "CoreConfig list"
  activeConfigs :: "nat list"
  requestMetrics :: "RequestMetrics list"
  currentCoreIndex :: nat

text \<open>\<open>coreConfigs.filter(config => config.isActive)\<close>, as positions.\<close>

definition activeFilter :: "CoreConfig list \<Rightarrow> nat list" where
  "activeFilter cs = filter (\<lambda>i. isActive (cs ! i)) [0..<length cs]"

definition initialState :: ProxyService where
  "initialState = \<lparr>coreConfigs = coreConfigs0, activeConfigs = activeFilter coreConfigs0,
     requestMetrics = [], currentCoreIndex = 0\<rparr>"

text \<open>
  \<open>updateCoreStatuses\<close>. The result of \<open>checkCoreHealth\<close> (a network probe) is the
  parameter \<open>probe\<close>. The loop writes one flag per iteration and waits for the next
  probe in between; only after the last iteration is \<open>activeConfigs\<close> replaced.
  \<open>sweepLoop probe k\<close> is the array after the first \<open>k\<close> iterations, and
  \<open>suspendedSweep probe k s\<close> the state that other request handlers see while the
  sweep waits for probe \<open>k + 1\<close>.
\<close>

definition sweepLoop :: "(CoreConfig \<Rightarrow> bool) \<Rightarrow> nat \<Rightarrow> CoreConfig list \<Rightarrow> CoreConfig list" where
  "sweepLoop probe k cs = map (\<lambda>config. config\<lparr>isActive := probe config\<rparr>) (take k cs) @ drop k cs"

definition suspendedSweep :: "(CoreConfig \<Rightarrow> bool) \<Rightarrow> nat \<Rightarrow> ProxyService \<Rightarrow> ProxyService" where
  "suspendedSweep probe k s = s\<lparr>coreConfigs := sweepLoop probe k (coreConfigs s)\<rparr>"

definition updateCoreStatuses :: "(CoreConfig \<Rightarrow> bool) \<Rightarrow> ProxyService \<Rightarrow> ProxyService" where
  "updateCoreStatuses probe s =
    (let cs = sweepLoop probe (length (coreConfigs s)) (coreConfigs s)
     in s\<lparr>coreConfigs := cs, activeConfigs := activeFilter cs\<rparr>)"

text \<open>\<open>selectCore\<close>: round-robin. The request argument is not read.\<close>

definition selectCore :: "ProxyService \<Rightarrow> nat option \<times> ProxyService" where
  "selectCore s =
    (if length (activeConfigs s) = 0 then (None, s)
     else
       let selectedCore =
             js_at (activeConfigs s) (js_rem (int (currentCoreIndex s)) (int (length (activeConfigs s))))
       in (selectedCore, s\<lparr>currentCoreIndex := js_incr (currentCoreIndex s)\<rparr>))"

text \<open>
  \<open>simpleHash\<close>. Inside the loop \<open>hash\<close> is a 32-bit integer: \<open>hash << 5\<close> wraps,
  the subtraction and the addition are exact on doubles, and \<open>hash & hash\<close> reduces
  the sum to 32 bits again, which is the arithmetic of \<open>32 word\<close>. \<open>Math.abs\<close> then
  works on the signed value as a number, where \<open>-2 ^ 31\<close> has the absolute value
  \<open>2 ^ 31\<close>.
\<close>

fun hashLoop :: "32 word \<Rightarrow> utf16 \<Rightarrow> 32 word" where
  "hashLoop hash [] = hash"
| "hashLoop hash (char # rest) = hashLoop ((push_bit 5 hash - hash) + ucast char) rest"

definition simpleHash :: "utf16 \<Rightarrow> int" where
  "simpleHash str = \<bar>sint (hashLoop 0 str)\<bar>"

definition selectCoreByUser :: "ProxyService \<Rightarrow> utf16 \<Rightarrow> nat option" where
  "selectCoreByUser s uid =
    (if length (activeConfigs s) = 0 then None
     else
       let hash = simpleHash uid;
           coreIndex = js_rem hash (int (length (activeConfigs s)))
       in js_at (activeConfigs s) coreIndex)"

text \<open>
  \<open>this.activeConfigs.find(c => c.name === n) || this.selectCore(...)\<close>: the first
  active backend of that name, or else the round-robin choice.
\<close>

definition findByName :: "ProxyService \<Rightarrow> string \<Rightarrow> nat option" where
  "findByName s n = find (\<lambda>i. name (coreConfigs s ! i) = n) (activeConfigs s)"

definition findOrSelectCore :: "ProxyService \<Rightarrow> string \<Rightarrow> nat option \<times> ProxyService" where
  "findOrSelectCore s n = (case findByName s n of Some c \<Rightarrow> (Some c, s) | None \<Rightarrow> selectCore s)"

definition selectCoreByPath :: "ProxyService \<Rightarrow> string \<Rightarrow> nat option \<times> ProxyService" where
  "selectCoreByPath s p =
    (if length (activeConfigs s) = 0 then (None, s)
     else if prefix ''/api/v1'' p then findOrSelectCore s ''core-api-1''
     else if prefix ''/api/v2'' p then findOrSelectCore s ''core-api-2''
     else if prefix ''/api/v3'' p then findOrSelectCore s ''core-api-3''
     else selectCore s)"

text \<open>
  \<open>intelligentRouter\<close>. \<open>sweep\<close> is \<open>None\<close> when \<open>Math.random()\<close> is at least
  \<open>0.1\<close>, and \<open>Some probe\<close> when the request first runs \<open>updateCoreStatuses\<close>,
  \<open>probe\<close> being the results of the health checks. The result is the response sent
  by the router itself, or the backend for which the proxy middleware is created and
  run. Nothing in the body raises, so the \<open>catch\<close> branch has no counterpart.
\<close>

datatype routed = Respond response | Proxy nat

text \<open>
  Lines 147 to 149 (\<open>sweepIf\<close>), the test \<open>req.session?.userId\<close>, and lines
  151 to 158 (\<open>strategy\<close>): a session with a user id selects by user, any other
  request by path.
\<close>

definition sweepIf :: "(CoreConfig \<Rightarrow> bool) option \<Rightarrow> ProxyService \<Rightarrow> ProxyService" where
  "sweepIf sweep s = (case sweep of None \<Rightarrow> s | Some probe \<Rightarrow> updateCoreStatuses probe s)"

definition sessionUserId :: "Request \<Rightarrow> utf16 option" where
  "sessionUserId req = (case session req of None \<Rightarrow> None | Some sd \<Rightarrow> userId sd)"

definition strategy :: "Request \<Rightarrow> ProxyService \<Rightarrow> nat option \<times> ProxyService" where
  "strategy req s =
    (case sessionUserId req of
       Some uid \<Rightarrow>
         if uid \<noteq> [] then (selectCoreByUser s uid, s) else selectCoreByPath s (req_path req)
     | None \<Rightarrow> selectCoreByPath s (req_path req))"

definition intelligentRouter ::
  "(CoreConfig \<Rightarrow> bool) option \<Rightarrow> Request \<Rightarrow> ProxyService \<Rightarrow> routed \<times> ProxyService" where
  "intelligentRouter sweep req s =
    (case strategy req (sweepIf sweep s) of
       (None, s') \<Rightarrow> (Respond (JsonError 503 ''Service Unavailable'' None), s')
     | (Some selectedCore, s') \<Rightarrow> (Proxy selectedCore, s'))"

subsection \<open>The proxy middleware\<close>

text \<open>
  \<open>onProxyReq\<close>: \<open>rid\<close> is the value of \<open>uuidv4()\<close>.
\<close>

definition onProxyReq :: "string \<Rightarrow> Request \<Rightarrow> Request" where
  "onProxyReq rid req =
    req\<lparr>xRequestId := Some rid, xForwardedFor := Some (ip req),
        xProxySource := Some ''flutter-proxy-server''\<rparr>"

text \<open>Lines 118 to 123: push, then keep the last 1000.\<close>

definition pushMetrics :: "RequestMetrics \<Rightarrow> ProxyService \<Rightarrow> ProxyService" where
  "pushMetrics metrics s =
    (let pushed = requestMetrics s @ [metrics]
     in s\<lparr>requestMetrics := (if length pushed > 1000 then slice_last 1000 pushed else pushed)\<rparr>)"

text \<open>
  \<open>onProxyRes\<close>. The handler reads the clock three times, in this order:
  \<open>startTime\<close> (the first \<open>Date.now()\<close>), \<open>now\<close> (the second one, in
  \<open>responseTime\<close>) and \<open>date\<close> (\<open>new Date()\<close>). \<open>status\<close> is
  \<open>proxyRes.statusCode\<close>.
\<close>

definition onProxyRes ::
  "nat \<Rightarrow> int \<Rightarrow> int \<Rightarrow> int \<Rightarrow> nat option \<Rightarrow> Request \<Rightarrow> ProxyService \<Rightarrow> ProxyService" where
  "onProxyRes targetCoreRef startTime now date status req s =
    pushMetrics
      \<lparr>requestId = xRequestId req,
       http_method = req_method req,
       path = req_path req,
       targetCore = name (coreConfigs s ! targetCoreRef),
       responseTime = now - startTime,
       statusCode = (case status of None \<Rightarrow> 0 | Some code \<Rightarrow> code),
       timestamp = date\<rparr> s"

definition onError :: "Request \<Rightarrow> response" where
  "onError req = JsonError 502 ''Bad Gateway'' (xRequestId req)"

text \<open>
  One exchange with the backend, as the proxy library runs it with the options of
  lines 84 to 88. The request is handed to the library at \<open>dispatchedAt\<close>; the
  library first puts the original URL back into the request
  (\<open>req.url = req.originalUrl || req.url\<close>), so that its handlers read the whole
  path where the router read the path below the mount point, and \<open>onProxyReq\<close>
  runs. At \<open>settledAt\<close> one of three things has happened:
  \<^item> \<open>Responded status\<close>: the backend's response has arrived, \<open>onProxyRes\<close> runs
    and the response is relayed;
  \<^item> \<open>Failed msg\<close>: the connection to the backend has failed (refused, host not
    found) and the library reports the error, \<open>onError\<close> runs;
  \<^item> \<open>TimedOut\<close>: the backend has not answered within 30000 ms. \<open>timeout\<close> and
    \<open>proxyTimeout\<close> are both 30000, and the timer of the incoming socket, set
    first, fires first: the connection of the client is destroyed, the library
    takes the broken exchange for a reset by the client and reports no error, so
    neither \<open>onError\<close> nor \<open>onProxyRes\<close> runs and no response is sent.
  \<open>handlerElapsed\<close> is the time that passes inside \<open>onProxyRes\<close> between its
  first and its later clock reads.
\<close>

datatype backend_outcome = Responded "nat option" | Failed string | TimedOut

definition prepareProxyRequest :: "Request \<Rightarrow> Request" where
  "prepareProxyRequest req =
    req\<lparr>req_path := (if originalUrl req \<noteq> [] then originalUrl req else req_path req)\<rparr>"

record Exchange =
  dispatchedAt :: int
  settledAt :: int
  handlerElapsed :: int
  outcome :: backend_outcome

definition proxyMiddleware ::
  "nat \<Rightarrow> string \<Rightarrow> Exchange \<Rightarrow> Request \<Rightarrow> ProxyService \<Rightarrow> response \<times> ProxyService" where
  "proxyMiddleware targetCoreRef rid ex req s =
    (let req' = onProxyReq rid (prepareProxyRequest req)
     in case outcome ex of
          Responded status \<Rightarrow>
            (Upstream status,
             onProxyRes targetCoreRef (settledAt ex) (settledAt ex + handlerElapsed ex)
               (settledAt ex + handlerElapsed ex) status req' s)
        | Failed msg \<Rightarrow> (onError req', s)
        | TimedOut \<Rightarrow> (ConnectionReset, s))"

text \<open>
  A request to \<open>/api\<close>: the router, mounted under \<open>/api\<close> (index.ts, line 105),
  then the proxy middleware it creates.
\<close>

definition handleApi ::
  "(CoreConfig \<Rightarrow> bool) option \<Rightarrow> string \<Rightarrow> Exchange \<Rightarrow> Request \<Rightarrow> ProxyService
    \<Rightarrow> response \<times> ProxyService" where
  "handleApi sweep rid ex req s =
    (case intelligentRouter sweep req s of
       (Respond r, s') \<Rightarrow> (r, s')
     | (Proxy selectedCore, s') \<Rightarrow> proxyMiddleware selectedCore rid ex req s')"

text \<open>\<open>k\<close> consecutive calls of \<open>selectCore\<close>, with the backends they return.\<close>

fun selectCoreTimes :: "nat \<Rightarrow> ProxyService \<Rightarrow> nat option list \<times> ProxyService" where
  "selectCoreTimes 0 s = ([], s)"
| "selectCoreTimes (Suc k) s =
    (case selectCore s of
       (selected, s') \<Rightarrow> (case selectCoreTimes k s' of (rest, s'') \<Rightarrow> (selected # rest, s'')))"

subsection \<open>The metrics route (routes/proxy.ts)\<close>

definition totalRequests :: "ProxyService \<Rightarrow> nat" where
  "totalRequests s = length (requestMetrics s)"

definition recentMetrics :: "ProxyService \<Rightarrow> RequestMetrics list" where
  "recentMetrics s = slice_last 50 (requestMetrics s)"

section \<open>SessionService (services/sessionService.ts)\<close>

text \<open>
  The configuration values the service reads: the session timeout in milliseconds,
  the signing secret and the token lifetime in seconds (\<open>'24h'\<close>).
\<close>

record Config =
  session_timeout :: int
  jwt_secret :: string
  jwt_expiresIn :: int

definition config :: Config where
  "config = \<lparr>session_timeout = 3600000,
     jwt_secret = ''default-jwt-secret-change-in-production'', jwt_expiresIn = 86400\<rparr>"

definition users :: "AuthUser list" where
  "users =
    [\<lparr>user_id = [49], username = ''admin'', role = ''admin'',
       permissions = [''read'', ''write'', ''delete'']\<rparr>,
     \<lparr>user_id = [50], username = ''user'', role = ''user'', permissions = [''read'']\<rparr>]"

text \<open>
  \<open>generateJWT\<close> and \<open>verifyJWT\<close>, at the clock reading \<open>now\<close> (milliseconds). The
  jsonwebtoken library stamps \<open>iat\<close> and \<open>exp\<close> in seconds, and accepts a token that
  was signed with the same secret and whose \<open>exp\<close> lies in the future.
\<close>

definition generateJWT :: "Config \<Rightarrow> int \<Rightarrow> AuthUser \<Rightarrow> jwt" where
  "generateJWT cfg now u =
    Signed \<lparr>jwt_userId = user_id u, jwt_username = username u, jwt_role = role u,
            iat = now div 1000, exp = now div 1000 + jwt_expiresIn cfg\<rparr> (jwt_secret cfg)"

definition verifyJWT :: "Config \<Rightarrow> int \<Rightarrow> jwt \<Rightarrow> JwtPayload option" where
  "verifyJWT cfg now token =
    (case token of
       Signed payload secret \<Rightarrow>
         if secret = jwt_secret cfg \<and> now div 1000 < exp payload then Some payload else None
     | Malformed _ \<Rightarrow> None)"

text \<open>The functions below read and write \<open>req.session\<close>, here their argument.\<close>

definition createSession :: "int \<Rightarrow> AuthUser \<Rightarrow> SessionData \<Rightarrow> SessionData" where
  "createSession now u sd =
    sd\<lparr>userId := Some (user_id u), userRole := Some (role u), lastActivity := Some now\<rparr>"

definition isSessionValid :: "Config \<Rightarrow> int \<Rightarrow> SessionData \<Rightarrow> bool" where
  "isSessionValid cfg now sd =
    (if \<not> truthy (userId sd) then False
     else case lastActivity sd of
            None \<Rightarrow> False
          | Some la \<Rightarrow> now - la < session_timeout cfg)"

definition updateLastActivity :: "int \<Rightarrow> SessionData \<Rightarrow> SessionData" where
  "updateLastActivity now sd = (if truthy (userId sd) then sd\<lparr>lastActivity := Some now\<rparr> else sd)"

definition getUserFromSession :: "SessionData \<Rightarrow> AuthUser option" where
  "getUserFromSession sd =
    (if \<not> truthy (userId sd) then None
     else find (\<lambda>u. Some (user_id u) = userId sd) users)"

section \<open>Authentication middleware (middleware/auth.ts)\<close>

text \<open>
  A middleware either calls \<open>next()\<close> or sends a response; both leave the request as
  they have changed it. Reading \<open>req.session.userId\<close> of a destroyed session raises.
\<close>

datatype passage = Next Request | Reply response Request | TypeError

text \<open>
  \<open>requireAuth\<close>. \<open>now\<close> is the clock as \<open>isSessionValid\<close> (or the token
  verification) reads it, \<open>refreshed\<close> the later reading of \<open>updateLastActivity\<close>.
\<close>

definition bearerAuth :: "Config \<Rightarrow> int \<Rightarrow> Request \<Rightarrow> passage" where
  "bearerAuth cfg now req =
    (case authorization req of
       Some (Bearer token) \<Rightarrow>
         (case verifyJWT cfg now token of
            Some decoded \<Rightarrow> Next (req\<lparr>user := Some (TokenClaims decoded)\<rparr>)
          | None \<Rightarrow> Reply (JsonError 401 ''Unauthorized'' None) req)
     | _ \<Rightarrow> Reply (JsonError 401 ''Unauthorized'' None) req)"

definition requireAuth :: "Config \<Rightarrow> int \<Rightarrow> int \<Rightarrow> Request \<Rightarrow> passage" where
  "requireAuth cfg now refreshed req =
    (case session req of
       Some sd \<Rightarrow>
         if truthy (userId sd) then
           (if isSessionValid cfg now sd
            then Next (req\<lparr>session := Some (updateLastActivity refreshed sd)\<rparr>)
            else Reply (JsonError 401 ''Session Expired'' None) (req\<lparr>session := None\<rparr>))
         else bearerAuth cfg now req
     | None \<Rightarrow> bearerAuth cfg now req)"

text \<open>
  \<open>SessionService.getUserFromSession(req) || req.user\<close>, and the two reads made of
  the result: \<open>user.permissions?.includes(permission)\<close>, which is \<open>undefined\<close> for a
  decoded token (its payload has no \<open>permissions\<close>), and \<open>user.role\<close>.
\<close>

definition currentUser :: "SessionData \<Rightarrow> Request \<Rightarrow> principal option" where
  "currentUser sd req =
    (case getUserFromSession sd of Some u \<Rightarrow> Some (TableUser u) | None \<Rightarrow> user req)"

definition includesPermission :: "principal \<Rightarrow> string \<Rightarrow> bool" where
  "includesPermission p permission =
    (case p of TableUser u \<Rightarrow> permission \<in> set (permissions u) | TokenClaims _ \<Rightarrow> False)"

definition roleOf :: "principal \<Rightarrow> string" where
  "roleOf p = (case p of TableUser u \<Rightarrow> role u | TokenClaims payload \<Rightarrow> jwt_role payload)"

definition requirePermission :: "string \<Rightarrow> Request \<Rightarrow> passage" where
  "requirePermission permission req =
    (case session req of
       None \<Rightarrow> TypeError
     | Some sd \<Rightarrow>
         (case currentUser sd req of
            None \<Rightarrow> Reply (JsonError 401 ''Unauthorized'' None) req
          | Some p \<Rightarrow>
              if \<not> includesPermission p permission
              then Reply (JsonError 403 ''Forbidden'' None) req
              else Next req))"

definition requireRole :: "string \<Rightarrow> Request \<Rightarrow> passage" where
  "requireRole r req =
    (case session req of
       None \<Rightarrow> TypeError
     | Some sd \<Rightarrow>
         (case currentUser sd req of
            None \<Rightarrow> Reply (JsonError 401 ''Unauthorized'' None) req
          | Some p \<Rightarrow>
              if roleOf p \<noteq> r
              then Reply (JsonError 403 ''Forbidden'' None) req
              else Next req))"

text \<open>
  Express runs the handlers of a route in order: the second one runs on the request
  the first one passed on with \<open>next()\<close>.
\<close>

definition andThen :: "(Request \<Rightarrow> passage) \<Rightarrow> (Request \<Rightarrow> passage) \<Rightarrow> Request \<Rightarrow> passage" where
  "andThen first second req = (case first req of Next req' \<Rightarrow> second req' | stopped \<Rightarrow> stopped)"

text \<open>
  What a chain of middleware did with a request: whether the last handler called
  \<open>next()\<close>, the response sent otherwise, and the identity that a handler running
  after it reads through \<open>getUserFromSession(req) || req.user\<close>.
\<close>

definition passes :: "passage \<Rightarrow> bool" where
  "passes r = (case r of Next _ \<Rightarrow> True | _ \<Rightarrow> False)"

definition replied :: "passage \<Rightarrow> response option" where
  "replied r = (case r of Reply resp _ \<Rightarrow> Some resp | _ \<Rightarrow> None)"

definition resolved :: "passage \<Rightarrow> principal option" where
  "resolved r =
    (case r of
       Next req \<Rightarrow> (case session req of Some sd \<Rightarrow> currentUser sd req | None \<Rightarrow> None)
     | _ \<Rightarrow> None)"

section \<open>States and requests used below\<close>

text \<open>
  The active list is in step with the flags when it is what the filter of line 37
  computes from the array as it stands: at start-up and after every completed
  \<open>updateCoreStatuses\<close>.
\<close>

definition committed :: "ProxyService \<Rightarrow> bool" where
  "committed s = (activeConfigs s = activeFilter (coreConfigs s))"

text \<open>A reference to a backend that exists and whose flag is true.\<close>

definition healthy :: "ProxyService \<Rightarrow> nat \<Rightarrow> bool" where
  "healthy s c = (c < length (coreConfigs s) \<and> isActive (coreConfigs s ! c))"

text \<open>
  A \<open>GET\<close> request as a handler mounted under \<open>/api\<close> receives it: \<open>p\<close> is the
  path that the handler reads, the URL sent by the client being \<open>/api\<close> followed
  by \<open>p\<close>. It has the session object that the session middleware attaches to a
  request that brings no cookie, and no credentials. \<open>sessionRequest\<close> is the same
  request within the session of a logged-in user, \<open>bearerRequest\<close> the same request
  with a bearer token.
\<close>

definition emptySession :: SessionData where
  "emptySession = \<lparr>userId = None, userRole = None, lastActivity = None\<rparr>"

definition plainRequest :: "string \<Rightarrow> Request" where
  "plainRequest p =
    \<lparr>req_method = ''GET'', req_path = p, originalUrl = ''/api'' @ p, ip = ''127.0.0.1'',
     session = Some emptySession,
     user = None, authorization = None, xRequestId = None, xForwardedFor = None,
     xProxySource = None\<rparr>"

definition sessionRequest :: "string \<Rightarrow> SessionData \<Rightarrow> Request" where
  "sessionRequest p sd = (plainRequest p)\<lparr>session := Some sd\<rparr>"

definition bearerRequest :: "string \<Rightarrow> jwt \<Rightarrow> Request" where
  "bearerRequest p token = (plainRequest p)\<lparr>authorization := Some (Bearer token)\<rparr>"

section \<open>Properties of the selector\<close>

lemma js_rem_nonneg: "0 \<le> a \<Longrightarrow> 0 < b \<Longrightarrow> js_rem a b = a mod b"
  by (cases "a = 0") (simp_all add: js_rem_def)

lemma js_at_nat: "js_at xs (int k) = (if k < length xs then Some (xs ! k) else None)"
  by (simp add: js_at_def)

lemma simpleHash_nonneg: "0 \<le> simpleHash str"
  by (simp add: simpleHash_def)

lemma selectCoreByUser_eq:
  assumes "activeConfigs s \<noteq> []"
  shows "selectCoreByUser s uid =
    Some (activeConfigs s ! nat (simpleHash uid mod int (length (activeConfigs s))))"
proof -
  let ?n = "int (length (activeConfigs s))"
  have n: "0 < ?n" using assms by simp
  have r: "js_rem (simpleHash uid) ?n = simpleHash uid mod ?n"
    using simpleHash_nonneg n by (rule js_rem_nonneg)
  have "0 \<le> simpleHash uid mod ?n" and "simpleHash uid mod ?n < ?n"
    using n by simp_all
  then show ?thesis
    using assms by (simp add: selectCoreByUser_def Let_def r js_at_def)
qed

text \<open>
  C10. For every user id, \<open>simpleHash\<close> is non-negative; for every non-empty active
  list of length \<open>n\<close> the index \<open>simpleHash(userId) % n\<close> lies in \<open>[0, n)\<close> and
  \<open>selectCoreByUser\<close> returns the backend at that index, never null.
\<close>

theorem simpleHash_index_in_range:
  "0 \<le> simpleHash uid \<and>
   (activeConfigs s \<noteq> [] \<longrightarrow>
      0 \<le> js_rem (simpleHash uid) (int (length (activeConfigs s))) \<and>
      js_rem (simpleHash uid) (int (length (activeConfigs s))) < int (length (activeConfigs s)) \<and>
      selectCoreByUser s uid =
        Some (activeConfigs s ! nat (js_rem (simpleHash uid) (int (length (activeConfigs s))))))"
proof (intro conjI impI)
  show "0 \<le> simpleHash uid" by (rule simpleHash_nonneg)
next
  assume ne: "activeConfigs s \<noteq> []"
  let ?n = "int (length (activeConfigs s))"
  have n: "0 < ?n" using ne by simp
  have r: "js_rem (simpleHash uid) ?n = simpleHash uid mod ?n"
    using simpleHash_nonneg n by (rule js_rem_nonneg)
  show "0 \<le> js_rem (simpleHash uid) ?n" using n by (simp add: r)
  show "js_rem (simpleHash uid) ?n < ?n" using n by (simp add: r)
  show "selectCoreByUser s uid = Some (activeConfigs s ! nat (js_rem (simpleHash uid) ?n))"
    using selectCoreByUser_eq [OF ne] by (simp add: r)
qed

lemma activeConfigs_initialState: "activeConfigs initialState = [0, 1, 2]"
  by (simp add: initialState_def activeFilter_def coreConfigs0_def upt_rec)

text \<open>The admin user (id \<open>1\<close>) with all three backends active.\<close>

theorem simpleHash_index_in_range_witness:
  "activeConfigs initialState \<noteq> [] \<and>
   selectCoreByUser initialState [49] =
     Some (activeConfigs initialState !
       nat (js_rem (simpleHash [49]) (int (length (activeConfigs initialState)))))"
proof -
  have ne: "activeConfigs initialState \<noteq> []"
    by (simp add: activeConfigs_initialState)
  from simpleHash_index_in_range [of "[49]" initialState] ne show ?thesis
    by blast
qed

section \<open>The metrics store\<close>

lemma slice_last_short: "length xs \<le> k \<Longrightarrow> slice_last k xs = xs"
  by (simp add: slice_last_def)

lemma length_slice_last: "length (slice_last k xs) = min (length xs) k"
  by (simp add: slice_last_def)

lemma slice_last_push:
  "(let pushed = slice_last 1000 hist @ [m]
    in if length pushed > 1000 then slice_last 1000 pushed else pushed) =
   slice_last 1000 (hist @ [m])"
proof (cases "length hist < 1000")
  case True
  then show ?thesis by (simp add: slice_last_def Let_def)
next
  case False
  then have "length hist - 1000 + 1 = Suc (length hist) - 1000" by simp
  with False show ?thesis
    by (simp add: slice_last_def Let_def)
qed

lemma requestMetrics_pushAll:
  "requestMetrics s = slice_last 1000 hist \<Longrightarrow>
   requestMetrics (foldl (\<lambda>st m. pushMetrics m st) s ms) = slice_last 1000 (hist @ ms)"
proof (induction ms arbitrary: s hist)
  case Nil
  then show ?case by simp
next
  case (Cons m ms)
  have "requestMetrics (pushMetrics m s) = slice_last 1000 (hist @ [m])"
    using slice_last_push [of hist m] Cons.prems by (simp add: pushMetrics_def Let_def)
  from Cons.IH [OF this] show ?case by simp
qed

text \<open>
  C8. \<open>pushMetrics\<close> is the only write to the metrics store. After any sequence of
  pushes, starting from the empty store of a new process, the store holds the most
  recent \<open>min k 1000\<close> records in arrival order, so never more than 1000, and the
  count reported by the metrics route is \<open>min k 1000\<close>: 1000 after 1001 pushes.
\<close>

theorem metrics_window:
  "requestMetrics (foldl (\<lambda>st m. pushMetrics m st) initialState ms) = drop (length ms - 1000) ms \<and>
   totalRequests (foldl (\<lambda>st m. pushMetrics m st) initialState ms) = min (length ms) 1000 \<and>
   totalRequests (foldl (\<lambda>st m. pushMetrics m st) initialState ms) \<le> 1000"
proof -
  have "requestMetrics initialState = slice_last 1000 []"
    by (simp add: initialState_def slice_last_def)
  from requestMetrics_pushAll [OF this, of ms]
  have eq: "requestMetrics (foldl (\<lambda>st m. pushMetrics m st) initialState ms) = slice_last 1000 ms"
    by simp
  then show ?thesis
    by (auto simp add: totalRequests_def slice_last_def)
qed

section \<open>What a selection returns\<close>

lemma sweepIf_requestMetrics: "requestMetrics (sweepIf sweep s) = requestMetrics s"
  by (cases sweep) (simp_all add: sweepIf_def updateCoreStatuses_def Let_def)

lemma selectCore_empty: "activeConfigs s = [] \<Longrightarrow> selectCore s = (None, s)"
  by (simp add: selectCore_def)

lemma selectCore_nonempty:
  assumes "activeConfigs s \<noteq> []"
  shows "selectCore s =
    (Some (activeConfigs s ! (currentCoreIndex s mod length (activeConfigs s))),
     s\<lparr>currentCoreIndex := js_incr (currentCoreIndex s)\<rparr>)"
proof -
  let ?n = "length (activeConfigs s)"
  have n: "0 < ?n" using assms by simp
  have "js_rem (int (currentCoreIndex s)) (int ?n) = int (currentCoreIndex s mod ?n)"
    using n by (simp add: js_rem_nonneg zmod_int)
  moreover have "currentCoreIndex s mod ?n < ?n" using n by simp
  ultimately show ?thesis
    using assms by (simp add: selectCore_def Let_def js_at_nat)
qed

lemma selectCore_state:
  "coreConfigs (snd (selectCore s)) = coreConfigs s \<and>
   activeConfigs (snd (selectCore s)) = activeConfigs s \<and>
   requestMetrics (snd (selectCore s)) = requestMetrics s"
  by (simp add: selectCore_def Let_def)

lemma selectCore_member:
  "fst (selectCore s) = Some c \<Longrightarrow> c \<in> set (activeConfigs s)"
  by (cases "activeConfigs s = []") (auto simp: selectCore_empty selectCore_nonempty)

lemma selectCoreByUser_member:
  assumes "selectCoreByUser s uid = Some c"
  shows "c \<in> set (activeConfigs s)"
proof (cases "activeConfigs s = []")
  case True
  with assms show ?thesis by (simp add: selectCoreByUser_def)
next
  case False
  let ?n = "int (length (activeConfigs s))"
  have "0 < ?n" using False by simp
  then have "nat (simpleHash uid mod ?n) < length (activeConfigs s)"
    by (simp add: nat_less_iff)
  then have "activeConfigs s ! nat (simpleHash uid mod ?n) \<in> set (activeConfigs s)"
    by (rule nth_mem)
  with assms selectCoreByUser_eq [OF False, of uid] show ?thesis by simp
qed

lemma findByName_Some:
  "findByName s n = Some c \<Longrightarrow> c \<in> set (activeConfigs s) \<and> name (coreConfigs s ! c) = n"
  by (auto simp: findByName_def find_Some_iff)

lemma findByName_None:
  "findByName s n = None \<longleftrightarrow> (\<forall>c\<in>set (activeConfigs s). name (coreConfigs s ! c) \<noteq> n)"
  by (auto simp: findByName_def find_None_iff)

lemma findOrSelectCore_state:
  "coreConfigs (snd (findOrSelectCore s n)) = coreConfigs s \<and>
   activeConfigs (snd (findOrSelectCore s n)) = activeConfigs s \<and>
   requestMetrics (snd (findOrSelectCore s n)) = requestMetrics s"
  by (simp add: findOrSelectCore_def selectCore_state split: option.split)

lemma findOrSelectCore_member:
  "fst (findOrSelectCore s n) = Some c \<Longrightarrow> c \<in> set (activeConfigs s)"
  by (auto simp: findOrSelectCore_def selectCore_member findByName_Some split: option.splits)

lemma findOrSelectCore_nonempty:
  "activeConfigs s \<noteq> [] \<Longrightarrow> \<exists>c. fst (findOrSelectCore s n) = Some c"
  by (simp add: findOrSelectCore_def selectCore_nonempty split: option.split)

lemma selectCoreByPath_state:
  "coreConfigs (snd (selectCoreByPath s p)) = coreConfigs s \<and>
   activeConfigs (snd (selectCoreByPath s p)) = activeConfigs s \<and>
   requestMetrics (snd (selectCoreByPath s p)) = requestMetrics s"
  by (simp add: selectCoreByPath_def selectCore_state findOrSelectCore_state)

lemma selectCoreByPath_member:
  "fst (selectCoreByPath s p) = Some c \<Longrightarrow> c \<in> set (activeConfigs s)"
  by (auto simp: selectCoreByPath_def selectCore_member findOrSelectCore_member split: if_splits)

lemma selectCoreByPath_nonempty:
  "activeConfigs s \<noteq> [] \<Longrightarrow> \<exists>c. fst (selectCoreByPath s p) = Some c"
  by (simp add: selectCoreByPath_def selectCore_nonempty findOrSelectCore_nonempty)

lemma strategy_state:
  "coreConfigs (snd (strategy req s)) = coreConfigs s \<and>
   activeConfigs (snd (strategy req s)) = activeConfigs s \<and>
   requestMetrics (snd (strategy req s)) = requestMetrics s"
  by (simp add: strategy_def selectCoreByPath_state split: option.split)

lemma strategy_member:
  "fst (strategy req s) = Some c \<Longrightarrow> c \<in> set (activeConfigs s)"
  by (auto simp: strategy_def selectCoreByPath_member selectCoreByUser_member
           split: option.splits if_splits)

lemma strategy_nonempty:
  "activeConfigs s \<noteq> [] \<Longrightarrow> \<exists>c. fst (strategy req s) = Some c"
  by (simp add: strategy_def selectCoreByPath_nonempty selectCoreByUser_eq split: option.split)

lemma strategy_empty:
  "activeConfigs s = [] \<Longrightarrow> strategy req s = (None, s)"
  by (simp add: strategy_def selectCoreByPath_def selectCoreByUser_def split: option.split)

lemma intelligentRouter_fst:
  "fst (intelligentRouter sweep req s) =
    (case fst (strategy req (sweepIf sweep s)) of
       None \<Rightarrow> Respond (JsonError 503 ''Service Unavailable'' None)
     | Some c \<Rightarrow> Proxy c)"
  by (simp add: intelligentRouter_def split: prod.split option.split)

lemma intelligentRouter_snd:
  "snd (intelligentRouter sweep req s) = snd (strategy req (sweepIf sweep s))"
  by (simp add: intelligentRouter_def split: prod.split option.split)

lemma intelligentRouter_requestMetrics:
  "requestMetrics (snd (intelligentRouter sweep req s)) = requestMetrics s"
  by (simp add: intelligentRouter_snd strategy_state sweepIf_requestMetrics)

text \<open>
  C9. When the active list is empty at the time of the selection (after the sweep, if
  the request runs one), the router answers 503 Service Unavailable itself: no proxy
  middleware is created, whatever the backend would have done, and the metrics store
  is the one the request found.
\<close>

theorem no_backend_503:
  assumes "activeConfigs (sweepIf sweep s) = []"
  shows "intelligentRouter sweep req s =
           (Respond (JsonError 503 ''Service Unavailable'' None), sweepIf sweep s) \<and>
         handleApi sweep rid ex req s =
           (JsonError 503 ''Service Unavailable'' None, sweepIf sweep s) \<and>
         requestMetrics (snd (handleApi sweep rid ex req s)) = requestMetrics s"
proof -
  have r: "intelligentRouter sweep req s =
      (Respond (JsonError 503 ''Service Unavailable'' None), sweepIf sweep s)"
    using assms by (simp add: intelligentRouter_def strategy_empty)
  then show ?thesis
    by (simp add: handleApi_def sweepIf_requestMetrics)
qed

lemma sweepLoop_complete:
  "sweepLoop probe (length cs) cs = map (\<lambda>config. config\<lparr>isActive := probe config\<rparr>) cs"
  by (simp add: sweepLoop_def)

lemma updateCoreStatuses_eq:
  "updateCoreStatuses probe s =
    s\<lparr>coreConfigs := map (\<lambda>config. config\<lparr>isActive := probe config\<rparr>) (coreConfigs s),
      activeConfigs :=
        activeFilter (map (\<lambda>config. config\<lparr>isActive := probe config\<rparr>) (coreConfigs s))\<rparr>"
  by (simp add: updateCoreStatuses_def Let_def sweepLoop_complete)

lemma sweep_all_down: "activeConfigs (sweepIf (Some (\<lambda>config. False)) s) = []"
  by (simp add: sweepIf_def updateCoreStatuses_eq activeFilter_def filter_empty_conv)

text \<open>All three probes of the sweep fail.\<close>

theorem no_backend_503_witness:
  "activeConfigs (sweepIf (Some (\<lambda>config. False)) initialState) = [] \<and>
   fst (handleApi (Some (\<lambda>config. False)) ''r1''
         \<lparr>dispatchedAt = 0, settledAt = 40, handlerElapsed = 0, outcome = Responded (Some 200)\<rparr>
         (plainRequest ''/api/v1/x'') initialState) =
     JsonError 503 ''Service Unavailable'' None \<and>
   requestMetrics (snd (handleApi (Some (\<lambda>config. False)) ''r1''
         \<lparr>dispatchedAt = 0, settledAt = 40, handlerElapsed = 0, outcome = Responded (Some 200)\<rparr>
         (plainRequest ''/api/v1/x'') initialState)) = []"
proof -
  have down: "activeConfigs (sweepIf (Some (\<lambda>config. False)) initialState) = []"
    by (rule sweep_all_down)
  have empty: "requestMetrics initialState = []"
    by (simp add: initialState_def)
  from no_backend_503 [where req = "plainRequest ''/api/v1/x''" and rid = "''r1''"
      and ex = "\<lparr>dispatchedAt = 0, settledAt = 40, handlerElapsed = 0,
                 outcome = Responded (Some 200)\<rparr>", OF down]
  show ?thesis using down empty by (simp add: sweepIf_requestMetrics)
qed

section \<open>Strategy order\<close>

lemma strategy_session_user:
  assumes "sessionUserId req = Some uid" and "uid \<noteq> []" and "activeConfigs s \<noteq> []"
  shows "strategy req s =
    (Some (activeConfigs s ! nat (simpleHash uid mod int (length (activeConfigs s)))), s)"
  using assms by (simp add: strategy_def selectCoreByUser_eq)

lemma strategy_no_session_user:
  "\<not> truthy (sessionUserId req) \<Longrightarrow> strategy req s = selectCoreByPath s (req_path req)"
  by (simp add: strategy_def truthy_def split: option.splits)

lemma selectCoreByPath_v1:
  assumes "prefix ''/api/v1'' p" and "activeConfigs s \<noteq> []"
  shows "selectCoreByPath s p = findOrSelectCore s ''core-api-1''"
  using assms by (simp add: selectCoreByPath_def)

lemma findByName_present:
  assumes "c \<in> set (activeConfigs s)" and "name (coreConfigs s ! c) = n"
  shows "\<exists>c'. findByName s n = Some c'"
proof (cases "findByName s n")
  case None
  with assms show ?thesis by (simp add: findByName_None)
next
  case (Some c')
  then show ?thesis by simp
qed

text \<open>
  C1 (as amended). The router tests the session's user id first. A request whose
  session carries no user id and whose path starts with \<open>/api/v1\<close> is routed to
  a backend named \<open>core-api-1\<close> whenever one is in the active list, whether or not
  the request carries an identity in a bearer token. A request whose session carries
  a user id is routed by the hash of that id, whatever its path.
\<close>

theorem path_prefix_without_session_user:
  "(\<not> truthy (sessionUserId req) \<and> prefix ''/api/v1'' (req_path req) \<and>
    c \<in> set (activeConfigs (sweepIf sweep s)) \<and>
    name (coreConfigs (sweepIf sweep s) ! c) = ''core-api-1''
    \<longrightarrow> (\<exists>c'. intelligentRouter sweep req s = (Proxy c', sweepIf sweep s) \<and>
              c' \<in> set (activeConfigs (sweepIf sweep s)) \<and>
              name (coreConfigs (sweepIf sweep s) ! c') = ''core-api-1'')) \<and>
   (sessionUserId req = Some uid \<and> uid \<noteq> [] \<and> activeConfigs (sweepIf sweep s) \<noteq> []
    \<longrightarrow> intelligentRouter sweep req s =
          (Proxy (activeConfigs (sweepIf sweep s) !
                    nat (simpleHash uid mod int (length (activeConfigs (sweepIf sweep s))))),
           sweepIf sweep s))"
proof (intro conjI impI)
  let ?s = "sweepIf sweep s"
  assume h: "\<not> truthy (sessionUserId req) \<and> prefix ''/api/v1'' (req_path req) \<and>
    c \<in> set (activeConfigs ?s) \<and> name (coreConfigs ?s ! c) = ''core-api-1''"
  then have ne: "activeConfigs ?s \<noteq> []" by auto
  from h obtain c' where f: "findByName ?s ''core-api-1'' = Some c'"
    using findByName_present by blast
  have "strategy req ?s = findOrSelectCore ?s ''core-api-1''"
    using h ne by (simp add: strategy_no_session_user selectCoreByPath_v1)
  then have "strategy req ?s = (Some c', ?s)"
    using f by (simp add: findOrSelectCore_def)
  then have "intelligentRouter sweep req s = (Proxy c', ?s)"
    by (simp add: intelligentRouter_def)
  with findByName_Some [OF f]
  show "\<exists>c'. intelligentRouter sweep req s = (Proxy c', ?s) \<and>
          c' \<in> set (activeConfigs ?s) \<and> name (coreConfigs ?s ! c') = ''core-api-1''"
    by blast
next
  let ?s = "sweepIf sweep s"
  assume h: "sessionUserId req = Some uid \<and> uid \<noteq> [] \<and> activeConfigs ?s \<noteq> []"
  then have "strategy req ?s =
      (Some (activeConfigs ?s ! nat (simpleHash uid mod int (length (activeConfigs ?s)))), ?s)"
    by (simp add: strategy_session_user)
  then show "intelligentRouter sweep req s =
      (Proxy (activeConfigs ?s ! nat (simpleHash uid mod int (length (activeConfigs ?s)))), ?s)"
    by (simp add: intelligentRouter_def)
qed

lemma coreConfigs_initialState: "coreConfigs initialState = coreConfigs0"
  by (simp add: initialState_def)

lemma sessionUserId_plainRequest: "sessionUserId (plainRequest p) = None"
  by (simp add: sessionUserId_def plainRequest_def emptySession_def)

lemma sessionUserId_sessionRequest: "sessionUserId (sessionRequest p sd) = userId sd"
  by (simp add: sessionUserId_def sessionRequest_def)

lemma req_path_plainRequest: "req_path (plainRequest p) = p"
  by (simp add: plainRequest_def)

lemma req_path_sessionRequest: "req_path (sessionRequest p sd) = p"
  by (simp add: sessionRequest_def plainRequest_def)

text \<open>
  Both cases with all three backends active: a request with no credentials, and the
  same request in the session of the admin user.
\<close>

theorem path_prefix_without_session_user_witness:
  "(\<exists>c'. intelligentRouter None (plainRequest ''/api/v1/x'') initialState = (Proxy c', initialState) \<and>
         c' \<in> set (activeConfigs initialState) \<and>
         name (coreConfigs initialState ! c') = ''core-api-1'') \<and>
   intelligentRouter None
     (sessionRequest ''/api/v1/x'' (createSession 0 (users ! 0) emptySession)) initialState =
     (Proxy 1, initialState)"
proof -
  have a: "\<not> truthy (sessionUserId (plainRequest ''/api/v1/x'')) \<and>
      prefix ''/api/v1'' (req_path (plainRequest ''/api/v1/x'')) \<and>
      0 \<in> set (activeConfigs (sweepIf None initialState)) \<and>
      name (coreConfigs (sweepIf None initialState) ! 0) = ''core-api-1''"
    by (simp add: sessionUserId_plainRequest truthy_def req_path_plainRequest sweepIf_def
        activeConfigs_initialState coreConfigs_initialState coreConfigs0_def)
  have b: "sessionUserId (sessionRequest ''/api/v1/x'' (createSession 0 (users ! 0) emptySession))
        = Some [49] \<and> [49] \<noteq> ([] :: utf16) \<and> activeConfigs (sweepIf None initialState) \<noteq> []"
    by (simp add: sessionUserId_sessionRequest createSession_def users_def sweepIf_def
        activeConfigs_initialState)
  have h: "simpleHash [49] = 49" by (simp add: simpleHash_def)
  from path_prefix_without_session_user
    [where req = "plainRequest ''/api/v1/x''" and sweep = None and s = initialState and c = 0]
    a
  have first: "\<exists>c'. intelligentRouter None (plainRequest ''/api/v1/x'') initialState =
        (Proxy c', initialState) \<and> c' \<in> set (activeConfigs initialState) \<and>
         name (coreConfigs initialState ! c') = ''core-api-1''"
    by (simp add: sweepIf_def)
  from path_prefix_without_session_user
    [where req = "sessionRequest ''/api/v1/x'' (createSession 0 (users ! 0) emptySession)"
       and sweep = None and s = initialState and uid = "[49]"]
    b
  have second: "intelligentRouter None
     (sessionRequest ''/api/v1/x'' (createSession 0 (users ! 0) emptySession)) initialState =
     (Proxy 1, initialState)"
    by (simp add: sweepIf_def activeConfigs_initialState h)
  from first second show ?thesis by blast
qed

text \<open>
  C1 as stated fails: \<open>core-api-1\<close> is active and the path starts with
  \<open>/api/v1\<close>, but the request is in the session of the admin user (id \<open>1\<close>,
  hash 49, index \<open>49 % 3 = 1\<close>) and goes to \<open>core-api-2\<close>.
\<close>

theorem session_user_overrides_path_prefix:
  "prefix ''/api/v1'' (req_path (sessionRequest ''/api/v1/x'' (createSession 0 (users ! 0) emptySession))) \<and>
   0 \<in> set (activeConfigs initialState) \<and>
   name (coreConfigs initialState ! 0) = ''core-api-1'' \<and>
   isActive (coreConfigs initialState ! 0) \<and>
   fst (intelligentRouter None
     (sessionRequest ''/api/v1/x'' (createSession 0 (users ! 0) emptySession)) initialState) =
     Proxy 1 \<and>
   name (coreConfigs initialState ! 1) = ''core-api-2''"
  by (simp add: intelligentRouter_def strategy_def sessionUserId_sessionRequest
      req_path_sessionRequest createSession_def users_def sweepIf_def selectCoreByUser_def
      activeConfigs_initialState coreConfigs_initialState coreConfigs0_def simpleHash_def
      js_rem_def js_at_def)

section \<open>Health of the selected backend\<close>

lemma committed_member:
  "committed s \<Longrightarrow> c \<in> set (activeConfigs s) \<Longrightarrow> healthy s c"
  by (simp add: committed_def activeFilter_def healthy_def)

lemma committed_nonempty:
  assumes "committed s" and "\<exists>config\<in>set (coreConfigs s). isActive config"
  shows "activeConfigs s \<noteq> []"
proof -
  from assms(2) obtain i where "i < length (coreConfigs s)" and "isActive (coreConfigs s ! i)"
    by (auto simp: in_set_conv_nth)
  then have "i \<in> set (activeFilter (coreConfigs s))"
    by (simp add: activeFilter_def)
  with assms(1) show ?thesis by (auto simp: committed_def)
qed

lemma committed_sweep: "committed (updateCoreStatuses probe s)"
  by (simp add: committed_def updateCoreStatuses_def Let_def)

text \<open>
  The active list is in step with the flags at start-up, after every completed
  sweep, and after every request handled from such a state; only a sweep that is
  under way leaves it behind.
\<close>

lemma committed_initialState: "committed initialState"
  by (simp add: committed_def initialState_def)

lemma committed_pushMetrics: "committed (pushMetrics m s) = committed s"
  by (simp add: committed_def pushMetrics_def Let_def)

lemma committed_sweepIf: "committed s \<Longrightarrow> committed (sweepIf sweep s)"
  by (cases sweep) (simp_all add: sweepIf_def committed_sweep)

lemma committed_intelligentRouter:
  "committed s \<Longrightarrow> committed (snd (intelligentRouter sweep req s))"
  using committed_sweepIf [of s sweep]
  by (simp add: committed_def intelligentRouter_snd strategy_state)

lemma committed_proxyMiddleware:
  "committed s \<Longrightarrow> committed (snd (proxyMiddleware c rid ex req s))"
  by (simp add: proxyMiddleware_def Let_def onProxyRes_def committed_pushMetrics
      split: backend_outcome.split)

lemma committed_handleApi:
  assumes "committed s"
  shows "committed (snd (handleApi sweep rid ex req s))"
proof (cases "intelligentRouter sweep req s")
  case (Pair r s')
  with committed_intelligentRouter [OF assms, of sweep req] have s': "committed s'" by simp
  show ?thesis
  proof (cases r)
    case (Respond resp)
    with Pair s' show ?thesis by (simp add: handleApi_def)
  next
    case (Proxy c)
    with Pair committed_proxyMiddleware [OF s'] show ?thesis by (simp add: handleApi_def)
  qed
qed

lemma healthy_name:
  assumes "healthy s c"
    and "\<forall>config\<in>set (coreConfigs s). name config = n \<longrightarrow> \<not> isActive config"
  shows "name (coreConfigs s ! c) \<noteq> n"
proof -
  from assms(1) have "coreConfigs s ! c \<in> set (coreConfigs s)" and "isActive (coreConfigs s ! c)"
    by (simp_all add: healthy_def)
  with assms(2) show ?thesis by blast
qed

lemma unhealthy_not_found:
  assumes "committed s"
    and "\<forall>config\<in>set (coreConfigs s). name config = n \<longrightarrow> \<not> isActive config"
  shows "findByName s n = None"
  using assms committed_member healthy_name by (fastforce simp: findByName_None)

text \<open>
  C5 (as amended). Whenever the active list is in step with the flags at the time of
  the selection and some backend is flagged healthy, round-robin, user-affinity and
  path-prefix selection, and so the router, each return a backend whose flag is true.
  In particular, when no backend named \<open>core-api-1\<close> is flagged healthy, a request
  with no session user and a path under \<open>/api/v1\<close> is served by the round-robin
  selection, by a healthy backend that is not \<open>core-api-1\<close>.
\<close>

theorem selection_healthy_when_committed:
  assumes "committed (sweepIf sweep s)"
    and "\<exists>config\<in>set (coreConfigs (sweepIf sweep s)). isActive config"
  shows "(\<exists>c. fst (selectCore (sweepIf sweep s)) = Some c \<and> healthy (sweepIf sweep s) c) \<and>
         (\<exists>c. selectCoreByUser (sweepIf sweep s) uid = Some c \<and> healthy (sweepIf sweep s) c) \<and>
         (\<exists>c. fst (selectCoreByPath (sweepIf sweep s) p) = Some c \<and> healthy (sweepIf sweep s) c) \<and>
         (\<exists>c. fst (intelligentRouter sweep req s) = Proxy c \<and>
              healthy (snd (intelligentRouter sweep req s)) c) \<and>
         (\<not> truthy (sessionUserId req) \<and> prefix ''/api/v1'' (req_path req) \<and>
          (\<forall>config\<in>set (coreConfigs (sweepIf sweep s)).
              name config = ''core-api-1'' \<longrightarrow> \<not> isActive config)
          \<longrightarrow> (\<exists>c. selectCore (sweepIf sweep s) = (Some c, snd (selectCore (sweepIf sweep s))) \<and>
                    intelligentRouter sweep req s = (Proxy c, snd (selectCore (sweepIf sweep s))) \<and>
                    healthy (sweepIf sweep s) c \<and>
                    name (coreConfigs (sweepIf sweep s) ! c) \<noteq> ''core-api-1''))"
proof -
  let ?s = "sweepIf sweep s"
  have ne: "activeConfigs ?s \<noteq> []"
    using assms by (rule committed_nonempty)
  have rr: "\<exists>c. fst (selectCore ?s) = Some c \<and> healthy ?s c"
    using ne assms(1) by (simp add: selectCore_nonempty committed_member)
  have byUser: "\<exists>c. selectCoreByUser ?s uid = Some c \<and> healthy ?s c"
  proof -
    obtain c where c: "selectCoreByUser ?s uid = Some c"
      using selectCoreByUser_eq [OF ne] by blast
    from selectCoreByUser_member [OF c] assms(1) have "healthy ?s c"
      by (simp add: committed_member)
    with c show ?thesis by blast
  qed
  have byPath: "\<exists>c. fst (selectCoreByPath ?s p) = Some c \<and> healthy ?s c"
  proof -
    from selectCoreByPath_nonempty [OF ne] obtain c where c: "fst (selectCoreByPath ?s p) = Some c"
      by blast
    from selectCoreByPath_member [OF c] assms(1) have "healthy ?s c"
      by (simp add: committed_member)
    with c show ?thesis by blast
  qed
  have router: "\<exists>c. fst (intelligentRouter sweep req s) = Proxy c \<and>
      healthy (snd (intelligentRouter sweep req s)) c"
  proof -
    from strategy_nonempty [OF ne] obtain c where c: "fst (strategy req ?s) = Some c"
      by blast
    from strategy_member [OF c] assms(1) have "healthy ?s c"
      by (simp add: committed_member)
    then have "healthy (snd (intelligentRouter sweep req s)) c"
      by (simp add: healthy_def intelligentRouter_snd strategy_state)
    with c show ?thesis by (simp add: intelligentRouter_fst)
  qed
  have scenario: "\<exists>c. selectCore ?s = (Some c, snd (selectCore ?s)) \<and>
        intelligentRouter sweep req s = (Proxy c, snd (selectCore ?s)) \<and>
        healthy ?s c \<and> name (coreConfigs ?s ! c) \<noteq> ''core-api-1''"
    if h: "\<not> truthy (sessionUserId req) \<and> prefix ''/api/v1'' (req_path req) \<and>
          (\<forall>config\<in>set (coreConfigs ?s). name config = ''core-api-1'' \<longrightarrow> \<not> isActive config)"
  proof -
    from h have down: "\<forall>config\<in>set (coreConfigs ?s). name config = ''core-api-1'' \<longrightarrow> \<not> isActive config"
      by blast
    have nf: "findByName ?s ''core-api-1'' = None"
      using assms(1) down by (rule unhealthy_not_found)
    have st: "strategy req ?s = selectCore ?s"
      using h ne nf
      by (simp add: strategy_no_session_user selectCoreByPath_v1 findOrSelectCore_def)
    from rr obtain c where c: "fst (selectCore ?s) = Some c" and hc: "healthy ?s c"
      by blast
    from c have sel: "selectCore ?s = (Some c, snd (selectCore ?s))"
      by (metis prod.collapse)
    have "intelligentRouter sweep req s = (Proxy c, snd (selectCore ?s))"
      using st c by (simp add: prod_eq_iff intelligentRouter_fst intelligentRouter_snd)
    with sel hc healthy_name [OF hc down] show ?thesis by blast
  qed
  from rr byUser byPath router scenario show ?thesis by blast
qed


text \<open>
  With all three backends active and no sweep by the request itself: the hypotheses
  hold and the five conclusions follow, the last one for a backend other than
  \<open>core-api-1\<close> once \<open>core-api-1\<close> has been swept out.
\<close>

lemma one_down_active:
  "activeConfigs (updateCoreStatuses (\<lambda>config. name config \<noteq> ''core-api-1'') initialState) = [1, 2]"
  by (simp add: updateCoreStatuses_eq initialState_def coreConfigs0_def activeFilter_def upt_rec)

lemma one_down_configs:
  "coreConfigs (updateCoreStatuses (\<lambda>config. name config \<noteq> ''core-api-1'') initialState) =
     map (\<lambda>config. config\<lparr>isActive := name config \<noteq> ''core-api-1''\<rparr>) coreConfigs0"
  by (simp add: updateCoreStatuses_eq initialState_def)

theorem selection_healthy_when_committed_witness:
  "committed (sweepIf (Some (\<lambda>config. name config \<noteq> ''core-api-1'')) initialState) \<and>
   map (\<lambda>config. (name config, isActive config))
     (coreConfigs (sweepIf (Some (\<lambda>config. name config \<noteq> ''core-api-1'')) initialState)) =
     [(''core-api-1'', False), (''core-api-2'', True), (''core-api-3'', True)] \<and>
   \<not> truthy (sessionUserId (plainRequest ''/api/v1/x'')) \<and>
   prefix ''/api/v1'' (req_path (plainRequest ''/api/v1/x'')) \<and>
   fst (intelligentRouter (Some (\<lambda>config. name config \<noteq> ''core-api-1''))
         (plainRequest ''/api/v1/x'') initialState) = Proxy 1"
proof -
  let ?probe = "\<lambda>config. name config \<noteq> ''core-api-1''"
  let ?s = "sweepIf (Some ?probe) initialState"
  have s: "?s = updateCoreStatuses ?probe initialState"
    by (simp add: sweepIf_def)
  have a: "committed ?s"
    by (simp add: s committed_sweep)
  have b: "\<exists>config\<in>set (coreConfigs ?s). isActive config"
    by (simp add: s one_down_configs coreConfigs0_def)
  have c: "\<not> truthy (sessionUserId (plainRequest ''/api/v1/x'')) \<and>
      prefix ''/api/v1'' (req_path (plainRequest ''/api/v1/x'')) \<and>
      (\<forall>config\<in>set (coreConfigs ?s). name config = ''core-api-1'' \<longrightarrow> \<not> isActive config)"
    by (simp add: s one_down_configs coreConfigs0_def sessionUserId_plainRequest truthy_def
        req_path_plainRequest)
  have idx: "currentCoreIndex (updateCoreStatuses ?probe initialState) = 0"
    by (simp add: updateCoreStatuses_eq initialState_def)
  have "fst (selectCore (updateCoreStatuses ?probe initialState)) = Some 1"
    by (simp add: selectCore_nonempty one_down_active idx)
  then have rr: "fst (selectCore ?s) = Some 1"
    by (simp add: s)
  from selection_healthy_when_committed [OF a b, of _ _ "plainRequest ''/api/v1/x''"] c
  obtain k where "selectCore ?s = (Some k, snd (selectCore ?s))"
    and r: "intelligentRouter (Some ?probe) (plainRequest ''/api/v1/x'') initialState =
        (Proxy k, snd (selectCore ?s))"
    by blast
  with rr have "k = 1" by (metis fst_conv option.inject)
  with r have "fst (intelligentRouter (Some ?probe) (plainRequest ''/api/v1/x'') initialState) = Proxy 1"
    by simp
  moreover have "map (\<lambda>config. (name config, isActive config)) (coreConfigs ?s) =
      [(''core-api-1'', False), (''core-api-2'', True), (''core-api-3'', True)]"
    by (simp add: s one_down_configs coreConfigs0_def)
  ultimately show ?thesis using a c by blast
qed

text \<open>
  C5 as stated fails while a sweep is under way. The sweep has found \<open>core-api-1\<close>
  down and has written its flag, and waits for the probe of \<open>core-api-2\<close>; the active
  list is still the one of the last completed sweep. A request with no identity
  that the router reads as \<open>/api/v1/x\<close>, handled now, is given \<open>core-api-1\<close>,
  whose flag is false, although
  \<open>core-api-2\<close> and \<open>core-api-3\<close> are flagged healthy.
\<close>

theorem unhealthy_selected_during_sweep:
  "isActive (coreConfigs (suspendedSweep (\<lambda>config. name config \<noteq> ''core-api-1'') 1 initialState) ! 1) \<and>
   fst (intelligentRouter None (plainRequest ''/api/v1/x'')
         (suspendedSweep (\<lambda>config. name config \<noteq> ''core-api-1'') 1 initialState)) = Proxy 0 \<and>
   name (coreConfigs (suspendedSweep (\<lambda>config. name config \<noteq> ''core-api-1'') 1 initialState) ! 0)
     = ''core-api-1'' \<and>
   \<not> isActive (coreConfigs (suspendedSweep (\<lambda>config. name config \<noteq> ''core-api-1'') 1 initialState) ! 0)"
  by (simp add: suspendedSweep_def sweepLoop_def intelligentRouter_def strategy_def
      sessionUserId_plainRequest req_path_plainRequest sweepIf_def selectCoreByPath_def
      findOrSelectCore_def findByName_def initialState_def activeFilter_def coreConfigs0_def
      upt_rec)

section \<open>Round-robin\<close>

text \<open>
  A request with no session user and a path under none of the three prefixes is
  served by \<open>selectCore\<close>, so consecutive such requests are consecutive calls of it.
\<close>

lemma strategy_round_robin:
  assumes "\<not> truthy (sessionUserId req)"
    and "\<not> prefix ''/api/v1'' (req_path req)"
    and "\<not> prefix ''/api/v2'' (req_path req)"
    and "\<not> prefix ''/api/v3'' (req_path req)"
  shows "strategy req s = selectCore s"
  using assms
  by (simp add: strategy_no_session_user selectCoreByPath_def selectCore_def)

lemma js_incr_below: "n < 2 ^ 53 \<Longrightarrow> js_incr n = Suc n"
  by (simp add: js_incr_def)

lemma selectCoreTimes_order:
  assumes "activeConfigs s \<noteq> []" and "currentCoreIndex s + k \<le> 2 ^ 53"
  shows "selectCoreTimes k s =
    (map (\<lambda>j. Some (activeConfigs s ! ((currentCoreIndex s + j) mod length (activeConfigs s))))
       [0..<k],
     s\<lparr>currentCoreIndex := currentCoreIndex s + k\<rparr>)"
  using assms
proof (induction k arbitrary: s)
  case 0
  then show ?case by simp
next
  case (Suc k)
  let ?s' = "s\<lparr>currentCoreIndex := Suc (currentCoreIndex s)\<rparr>"
  from Suc.prems have below: "currentCoreIndex s < 2 ^ 53" by simp
  have step: "selectCore s =
      (Some (activeConfigs s ! (currentCoreIndex s mod length (activeConfigs s))), ?s')"
    using Suc.prems(1) below by (simp add: selectCore_nonempty js_incr_below)
  have "activeConfigs ?s' \<noteq> []" and "currentCoreIndex ?s' + k \<le> 2 ^ 53"
    using Suc.prems by simp_all
  from Suc.IH [OF this]
  have rest: "selectCoreTimes k ?s' =
      (map (\<lambda>j. Some (activeConfigs s ! ((Suc (currentCoreIndex s) + j) mod length (activeConfigs s))))
         [0..<k],
       s\<lparr>currentCoreIndex := currentCoreIndex s + Suc k\<rparr>)"
    by simp
  have "[0..<Suc k] = 0 # map Suc [0..<k]"
    by (simp add: upt_conv_Cons map_Suc_upt del: upt_Suc)
  then have "map (\<lambda>j. Some (activeConfigs s ! ((currentCoreIndex s + j) mod length (activeConfigs s))))
        [0..<Suc k] =
      Some (activeConfigs s ! (currentCoreIndex s mod length (activeConfigs s))) #
      map (\<lambda>j. Some (activeConfigs s ! ((Suc (currentCoreIndex s) + j) mod length (activeConfigs s))))
        [0..<k]"
    by (simp add: comp_def del: upt_Suc)
  with step rest show ?case by (simp del: upt_Suc)
qed

lemma rotate_indices:
  "map (\<lambda>j. xs ! ((c + j) mod length xs)) [0..<length xs] = rotate c xs"
  by (rule nth_equalityI) (simp_all add: nth_rotate)

lemma rotate_block:
  "map (\<lambda>j. xs ! ((c + j) mod length xs)) [k * length xs..<k * length xs + length xs] = rotate c xs"
proof -
  have "[k * length xs..<k * length xs + length xs] = map (\<lambda>i. i + k * length xs) [0..<length xs]"
    by (simp add: map_add_upt add.commute)
  then have "map (\<lambda>j. xs ! ((c + j) mod length xs)) [k * length xs..<k * length xs + length xs] =
      map (\<lambda>j. xs ! ((c + (j + k * length xs)) mod length xs)) [0..<length xs]"
    by (simp add: comp_def)
  also have "\<dots> = map (\<lambda>j. xs ! ((c + j) mod length xs)) [0..<length xs]"
    by (simp add: add.assoc [symmetric])
  finally show ?thesis by (simp add: rotate_indices)
qed

lemma three_rounds:
  "map (\<lambda>j. xs ! ((c + j) mod length xs)) [0..<3 * length xs] =
     rotate c xs @ rotate c xs @ rotate c xs"
proof -
  let ?n = "length xs"
  let ?f = "\<lambda>j. xs ! ((c + j) mod ?n)"
  have b1: "map ?f [?n..<?n + ?n] = rotate c xs"
    using rotate_block [of xs c 1] by simp
  have b2: "map ?f [?n + ?n..<?n + ?n + ?n] = rotate c xs"
    using rotate_block [of xs c 2] by (simp add: mult_2)
  have "[0..<?n + ?n + ?n] = [0..<?n + ?n] @ [?n + ?n..<?n + ?n + ?n]"
    by (rule upt_add_eq_append) simp
  also have "[0..<?n + ?n] = [0..<?n] @ [?n..<?n + ?n]"
    by (rule upt_add_eq_append) simp
  finally have "map ?f [0..<?n + ?n + ?n] =
      map ?f [0..<?n] @ map ?f [?n..<?n + ?n] @ map ?f [?n + ?n..<?n + ?n + ?n]"
    by (simp only: map_append append_assoc)
  then have "map ?f [0..<?n + ?n + ?n] = rotate c xs @ rotate c xs @ rotate c xs"
    by (simp only: b1 b2 rotate_indices)
  moreover have "3 * ?n = ?n + ?n + ?n" by simp
  ultimately show ?thesis by (simp only:)
qed

lemma count_list_rotate: "count_list (rotate c xs) x = count_list xs x"
proof -
  let ?m = "c mod length xs"
  have "count_list xs x = count_list (take ?m xs @ drop ?m xs) x"
    by (simp only: append_take_drop_id)
  also have "\<dots> = count_list (take ?m xs) x + count_list (drop ?m xs) x"
    by (rule count_list_append)
  finally have whole: "count_list xs x = count_list (take ?m xs) x + count_list (drop ?m xs) x" .
  have "count_list (rotate c xs) x = count_list (drop ?m xs) x + count_list (take ?m xs) x"
    by (simp only: rotate_drop_take count_list_append)
  with whole show ?thesis by simp
qed

lemma count_list_Some: "count_list (map Some xs) (Some x) = count_list xs x"
  by (induction xs) simp_all

lemma count_list_distinct: "distinct xs \<Longrightarrow> x \<in> set xs \<Longrightarrow> count_list xs x = 1"
  by (induction xs) auto


text \<open>
  C6 (as amended). For every non-empty active list of length \<open>n\<close> and every value
  \<open>c\<close> of the counter with \<open>c + 3n \<le> 2 ^ 53\<close>, \<open>3n\<close> consecutive calls of
  \<open>selectCore\<close> return the backends at the positions \<open>(c + j) mod n\<close> for
  \<open>j = 0, \<dots>, 3n - 1\<close>: the active list in its order, from position \<open>c mod n\<close>
  and wrapping around. The list itself is unchanged, and every backend is returned
  three times as often as it occurs in it: exactly 3 times when the list has no
  duplicates, as every list built by the filter.
\<close>

theorem round_robin_three_rounds:
  assumes "activeConfigs s \<noteq> []"
    and "currentCoreIndex s + 3 * length (activeConfigs s) \<le> 2 ^ 53"
  shows "fst (selectCoreTimes (3 * length (activeConfigs s)) s) =
           map (\<lambda>j. Some (activeConfigs s !
                  ((currentCoreIndex s + j) mod length (activeConfigs s))))
             [0..<3 * length (activeConfigs s)] \<and>
         activeConfigs (snd (selectCoreTimes (3 * length (activeConfigs s)) s)) = activeConfigs s \<and>
         (\<forall>b. count_list (fst (selectCoreTimes (3 * length (activeConfigs s)) s)) (Some b) =
                3 * count_list (activeConfigs s) b) \<and>
         (distinct (activeConfigs s) \<longrightarrow>
           (\<forall>b\<in>set (activeConfigs s).
              count_list (fst (selectCoreTimes (3 * length (activeConfigs s)) s)) (Some b) = 3))"
proof -
  let ?act = "activeConfigs s"
  let ?c = "currentCoreIndex s"
  let ?run = "selectCoreTimes (3 * length ?act) s"
  from selectCoreTimes_order [OF assms]
  have run: "?run =
      (map (\<lambda>j. Some (?act ! ((?c + j) mod length ?act))) [0..<3 * length ?act],
       s\<lparr>currentCoreIndex := ?c + 3 * length ?act\<rparr>)" .
  have "map (\<lambda>j. Some (?act ! ((?c + j) mod length ?act))) [0..<3 * length ?act] =
      map Some (map (\<lambda>j. ?act ! ((?c + j) mod length ?act)) [0..<3 * length ?act])"
    by (simp add: comp_def)
  then have rounds: "fst ?run = map Some (rotate ?c ?act @ rotate ?c ?act @ rotate ?c ?act)"
    by (simp only: run fst_conv three_rounds)
  have counts: "count_list (fst ?run) (Some b) = 3 * count_list ?act b" for b
    by (simp only: rounds count_list_Some count_list_append count_list_rotate)
  have "count_list (fst ?run) (Some b) = 3" if "distinct ?act" and "b \<in> set ?act" for b
    using counts [of b] count_list_distinct [OF that] by simp
  with run counts show ?thesis by simp
qed

text \<open>Three backends and a counter at 7: positions 1, 2, 0, three times.\<close>

theorem round_robin_three_rounds_witness:
  "activeConfigs (initialState\<lparr>currentCoreIndex := 7\<rparr>) \<noteq> [] \<and>
   currentCoreIndex (initialState\<lparr>currentCoreIndex := 7\<rparr>) +
     3 * length (activeConfigs (initialState\<lparr>currentCoreIndex := 7\<rparr>)) \<le> 2 ^ 53 \<and>
   distinct (activeConfigs (initialState\<lparr>currentCoreIndex := 7\<rparr>)) \<and>
   fst (selectCoreTimes 9 (initialState\<lparr>currentCoreIndex := 7\<rparr>)) =
     [Some 1, Some 2, Some 0, Some 1, Some 2, Some 0, Some 1, Some 2, Some 0] \<and>
   count_list (fst (selectCoreTimes 9 (initialState\<lparr>currentCoreIndex := 7\<rparr>))) (Some 0) = 3"
proof -
  let ?s = "initialState\<lparr>currentCoreIndex := 7\<rparr>"
  have a: "activeConfigs ?s \<noteq> []"
    by (simp add: activeConfigs_initialState)
  have b: "currentCoreIndex ?s + 3 * length (activeConfigs ?s) \<le> 2 ^ 53"
    by (simp add: activeConfigs_initialState)
  have d: "distinct (activeConfigs ?s)"
    by (simp add: activeConfigs_initialState)
  have nine: "3 * length (activeConfigs ?s) = 9"
    by (simp add: activeConfigs_initialState)
  have zero: "0 \<in> set (activeConfigs ?s)"
    by (simp add: activeConfigs_initialState)
  from round_robin_three_rounds [OF a b]
  have order: "fst (selectCoreTimes (3 * length (activeConfigs ?s)) ?s) =
      map (\<lambda>j. Some (activeConfigs ?s ! ((currentCoreIndex ?s + j) mod length (activeConfigs ?s))))
        [0..<3 * length (activeConfigs ?s)]"
    and each: "distinct (activeConfigs ?s) \<longrightarrow>
      (\<forall>b\<in>set (activeConfigs ?s).
         count_list (fst (selectCoreTimes (3 * length (activeConfigs ?s)) ?s)) (Some b) = 3)"
    by blast+
  from order have first: "fst (selectCoreTimes 9 ?s) =
      [Some 1, Some 2, Some 0, Some 1, Some 2, Some 0, Some 1, Some 2, Some 0]"
    unfolding nine by (simp add: activeConfigs_initialState upt_rec)
  from each d zero have "count_list (fst (selectCoreTimes 9 ?s)) (Some 0) = 3"
    unfolding nine by blast
  with a b d first show ?thesis by blast
qed

lemma selectCoreTimes_stuck:
  assumes "activeConfigs s \<noteq> []" and "currentCoreIndex s = 2 ^ 53"
  shows "selectCoreTimes k s =
    (replicate k (Some (activeConfigs s ! (2 ^ 53 mod length (activeConfigs s)))), s)"
proof (induction k)
  case 0
  then show ?case by simp
next
  case (Suc k)
  have "selectCore s = (Some (activeConfigs s ! (2 ^ 53 mod length (activeConfigs s))), s)"
    using assms by (simp add: selectCore_nonempty js_incr_def)
  with Suc show ?case by simp
qed

lemma replicate_nine: "replicate 9 x = [x, x, x, x, x, x, x, x, x]"
  by (simp add: eval_nat_numeral)

text \<open>
  C6 as stated fails for a counter that has reached \<open>2 ^ 53\<close>: the increment no
  longer changes it, and with three active backends all nine selections return
  \<open>core-api-3\<close> (position \<open>2 ^ 53 mod 3 = 2\<close>), \<open>core-api-1\<close> never.
\<close>

theorem round_robin_stuck_at_2_53:
  "fst (selectCoreTimes 9 (initialState\<lparr>currentCoreIndex := 2 ^ 53\<rparr>)) =
     [Some 2, Some 2, Some 2, Some 2, Some 2, Some 2, Some 2, Some 2, Some 2] \<and>
   count_list (fst (selectCoreTimes 9 (initialState\<lparr>currentCoreIndex := 2 ^ 53\<rparr>))) (Some 0) = 0"
proof -
  let ?s = "initialState\<lparr>currentCoreIndex := 2 ^ 53\<rparr>"
  have "selectCoreTimes 9 ?s =
      (replicate 9 (Some (activeConfigs ?s ! (2 ^ 53 mod length (activeConfigs ?s)))), ?s)"
    by (rule selectCoreTimes_stuck) (simp_all add: activeConfigs_initialState)
  moreover have "(2 :: nat) ^ 53 mod 3 = 2" by simp
  ultimately show ?thesis
    by (simp add: activeConfigs_initialState replicate_nine)
qed

section \<open>Forwarding\<close>

lemma handleApi_proxied:
  assumes "fst (intelligentRouter sweep req s) = Proxy c"
  shows "handleApi sweep rid ex req s =
    proxyMiddleware c rid ex req (snd (intelligentRouter sweep req s))"
  using assms by (cases "intelligentRouter sweep req s") (simp add: handleApi_def)

lemma router_plain_round_robin:
  "intelligentRouter None (plainRequest ''/v2/x'') initialState =
     (Proxy 0, initialState\<lparr>currentCoreIndex := 1\<rparr>)"
proof -
  have "strategy (plainRequest ''/v2/x'') initialState = selectCore initialState"
    by (rule strategy_round_robin)
       (simp_all add: sessionUserId_plainRequest truthy_def req_path_plainRequest)
  moreover have "selectCore initialState = (Some 0, initialState\<lparr>currentCoreIndex := 1\<rparr>)"
  proof -
    have "activeConfigs initialState \<noteq> []" and "currentCoreIndex initialState = 0"
      by (simp_all add: activeConfigs_initialState) (simp add: initialState_def)
    then show ?thesis
      by (simp add: selectCore_nonempty activeConfigs_initialState js_incr_def)
  qed
  ultimately show ?thesis
    by (simp add: intelligentRouter_def sweepIf_def)
qed

lemma proxyMiddleware_timeout:
  "outcome ex = TimedOut \<Longrightarrow> proxyMiddleware c rid ex req s = (ConnectionReset, s)"
  by (simp add: proxyMiddleware_def)

text \<open>
  C2 (as amended). When the connection to the selected backend fails, the client
  receives 502 Bad Gateway with the correlation id of the request. Whether the
  exchange fails by a connection failure or by timeout, the metrics store is left
  as it was: only \<open>onProxyRes\<close>, which runs when a response has arrived from the
  backend, records an outcome.
\<close>

theorem forwarding_failure_502:
  assumes "fst (intelligentRouter sweep req s) = Proxy c"
  shows "(outcome ex = Failed msg \<longrightarrow>
            handleApi sweep rid ex req s =
              (JsonError 502 ''Bad Gateway'' (Some rid), snd (intelligentRouter sweep req s)) \<and>
            requestMetrics (snd (handleApi sweep rid ex req s)) = requestMetrics s) \<and>
         (outcome ex = TimedOut \<longrightarrow>
            requestMetrics (snd (handleApi sweep rid ex req s)) = requestMetrics s)"
proof (intro conjI impI)
  assume failed: "outcome ex = Failed msg"
  then show "handleApi sweep rid ex req s =
      (JsonError 502 ''Bad Gateway'' (Some rid), snd (intelligentRouter sweep req s))"
    by (simp add: handleApi_proxied [OF assms] proxyMiddleware_def onError_def onProxyReq_def
        prepareProxyRequest_def)
  then show "requestMetrics (snd (handleApi sweep rid ex req s)) = requestMetrics s"
    by (simp add: intelligentRouter_requestMetrics)
next
  assume "outcome ex = TimedOut"
  then show "requestMetrics (snd (handleApi sweep rid ex req s)) = requestMetrics s"
    by (simp add: handleApi_proxied [OF assms] proxyMiddleware_timeout
        intelligentRouter_requestMetrics)
qed

text \<open>
  A request for \<open>/api/v2/x\<close> with all three backends active, given to
  \<open>core-api-1\<close> by the round-robin selection: once the connection is refused, once
  the backend does not answer.
\<close>

theorem forwarding_failure_502_witness:
  "fst (intelligentRouter None (plainRequest ''/v2/x'') initialState) = Proxy 0 \<and>
   handleApi None ''r2''
     \<lparr>dispatchedAt = 0, settledAt = 12, handlerElapsed = 0, outcome = Failed ''ECONNREFUSED''\<rparr>
     (plainRequest ''/v2/x'') initialState =
     (JsonError 502 ''Bad Gateway'' (Some ''r2''), initialState\<lparr>currentCoreIndex := 1\<rparr>) \<and>
   requestMetrics (snd (handleApi None ''r3''
     \<lparr>dispatchedAt = 0, settledAt = 30000, handlerElapsed = 0, outcome = TimedOut\<rparr>
     (plainRequest ''/v2/x'') initialState)) = requestMetrics initialState"
proof -
  let ?refused = "\<lparr>dispatchedAt = 0, settledAt = 12, handlerElapsed = 0,
                   outcome = Failed ''ECONNREFUSED''\<rparr>"
  let ?silent = "\<lparr>dispatchedAt = 0, settledAt = 30000, handlerElapsed = 0,
                  outcome = TimedOut\<rparr>"
  have a: "fst (intelligentRouter None (plainRequest ''/v2/x'') initialState) = Proxy 0"
    by (simp add: router_plain_round_robin)
  have b: "outcome ?refused = Failed ''ECONNREFUSED''" and c: "outcome ?silent = TimedOut"
    by simp_all
  from forwarding_failure_502 [OF a, of ?refused "''ECONNREFUSED''" "''r2''"] b
  have first: "handleApi None ''r2'' ?refused (plainRequest ''/v2/x'') initialState =
      (JsonError 502 ''Bad Gateway'' (Some ''r2''), initialState\<lparr>currentCoreIndex := 1\<rparr>)"
    by (simp add: router_plain_round_robin)
  from forwarding_failure_502 [OF a, of ?silent _ "''r3''"] c
  have second: "requestMetrics (snd (handleApi None ''r3'' ?silent (plainRequest ''/v2/x'')
      initialState)) = requestMetrics initialState"
    by blast
  from a first second show ?thesis by blast
qed

text \<open>
  C2 as stated fails. A request whose connection to the backend is refused is
  answered with 502 and the correlation id, and the store, empty before, is still
  empty. A request that the backend does not answer within the timeout gets no
  502 at all: its connection is destroyed, and the store is still empty.
\<close>

theorem forwarding_failure_not_recorded:
  "handleApi None ''r1''
     \<lparr>dispatchedAt = 0, settledAt = 5, handlerElapsed = 0, outcome = Failed ''ECONNREFUSED''\<rparr>
     (plainRequest ''/v1/x'') initialState =
     (JsonError 502 ''Bad Gateway'' (Some ''r1''),
      \<lparr>coreConfigs = coreConfigs0, activeConfigs = [0, 1, 2], requestMetrics = [],
       currentCoreIndex = 1\<rparr>) \<and>
   handleApi None ''r1''
     \<lparr>dispatchedAt = 0, settledAt = 30000, handlerElapsed = 0, outcome = TimedOut\<rparr>
     (plainRequest ''/v1/x'') initialState =
     (ConnectionReset,
      \<lparr>coreConfigs = coreConfigs0, activeConfigs = [0, 1, 2], requestMetrics = [],
       currentCoreIndex = 1\<rparr>)"
proof -
  have route: "intelligentRouter None (plainRequest ''/v1/x'') initialState =
      (Proxy 0, initialState\<lparr>currentCoreIndex := 1\<rparr>)"
  proof -
    have "strategy (plainRequest ''/v1/x'') initialState = selectCore initialState"
      by (rule strategy_round_robin)
         (simp_all add: sessionUserId_plainRequest truthy_def req_path_plainRequest)
    moreover have "activeConfigs initialState \<noteq> []" and "currentCoreIndex initialState = 0"
      by (simp_all add: activeConfigs_initialState) (simp add: initialState_def)
    ultimately show ?thesis
      by (simp add: intelligentRouter_def sweepIf_def selectCore_nonempty
          activeConfigs_initialState js_incr_def)
  qed
  have state: "initialState\<lparr>currentCoreIndex := 1\<rparr> =
      \<lparr>coreConfigs = coreConfigs0, activeConfigs = [0, 1, 2], requestMetrics = [],
       currentCoreIndex = 1\<rparr>"
    by (simp add: initialState_def activeFilter_def coreConfigs0_def upt_rec)
  have refused: "handleApi None ''r1''
      \<lparr>dispatchedAt = 0, settledAt = 5, handlerElapsed = 0, outcome = Failed ''ECONNREFUSED''\<rparr>
      (plainRequest ''/v1/x'') initialState =
      (JsonError 502 ''Bad Gateway'' (Some ''r1''), initialState\<lparr>currentCoreIndex := 1\<rparr>)"
    by (simp add: handleApi_def route proxyMiddleware_def onError_def onProxyReq_def
        prepareProxyRequest_def)
  have silent: "handleApi None ''r1''
      \<lparr>dispatchedAt = 0, settledAt = 30000, handlerElapsed = 0, outcome = TimedOut\<rparr>
      (plainRequest ''/v1/x'') initialState =
      (ConnectionReset, initialState\<lparr>currentCoreIndex := 1\<rparr>)"
    by (simp add: handleApi_def route proxyMiddleware_def)
  from refused silent show ?thesis
    unfolding state by blast
qed

lemma proxyMiddleware_ignores_dispatch:
  "proxyMiddleware c rid (ex\<lparr>dispatchedAt := t\<rparr>) req s = proxyMiddleware c rid ex req s"
  by (simp add: proxyMiddleware_def Let_def split: backend_outcome.split)

lemma handleApi_ignores_dispatch:
  "handleApi sweep rid (ex\<lparr>dispatchedAt := t\<rparr>) req s = handleApi sweep rid ex req s"
  by (simp add: handleApi_def proxyMiddleware_ignores_dispatch split: prod.split routed.split)


lemma onProxyRes_responseTime:
  "length (requestMetrics s) < 1000 \<Longrightarrow>
   map responseTime (requestMetrics (onProxyRes c startTime now date status req s)) =
     map responseTime (requestMetrics s) @ [now - startTime]"
  by (simp add: onProxyRes_def pushMetrics_def Let_def)

text \<open>
  C4. \<open>onProxyRes\<close> takes \<open>startTime\<close> itself, when the response has already
  arrived, so the recorded \<open>responseTime\<close> is the time between the handler's own
  two clock reads; the time of the dispatch is read nowhere. Below, a request for
  \<open>/api/v2/x\<close> is given to \<open>core-api-1\<close> by the round-robin selection, the
  backend answers 250 ms after the dispatch, and the record says 0.
\<close>

theorem responseTime_is_handler_time:
  "requestMetrics (snd (handleApi None ''r1''
      \<lparr>dispatchedAt = 1000, settledAt = 1250, handlerElapsed = 0, outcome = Responded (Some 200)\<rparr>
      (plainRequest ''/v2/x'') initialState)) =
     [\<lparr>requestId = Some ''r1'', http_method = ''GET'', path = ''/api/v2/x'',
       targetCore = ''core-api-1'', responseTime = 0, statusCode = 200, timestamp = 1250\<rparr>]"
proof -
  let ?ex = "\<lparr>dispatchedAt = 1000, settledAt = 1250, handlerElapsed = 0,
              outcome = Responded (Some 200)\<rparr>"
  have "handleApi None ''r1'' ?ex (plainRequest ''/v2/x'') initialState =
      proxyMiddleware 0 ''r1'' ?ex (plainRequest ''/v2/x'') (initialState\<lparr>currentCoreIndex := 1\<rparr>)"
    by (simp add: handleApi_def router_plain_round_robin)
  then show ?thesis
    by (simp add: proxyMiddleware_def prepareProxyRequest_def onProxyReq_def onProxyRes_def
        pushMetrics_def Let_def initialState_def coreConfigs0_def plainRequest_def)
qed

section \<open>Sessions and tokens\<close>

text \<open>
  C7. For every request whose session carries a user id, \<open>requireAuth\<close> calls
  \<open>next()\<close> exactly when the session has a last activity \<open>la\<close> with
  \<open>now - la < sessionTimeout\<close>, and then the last activity is the time read at the
  refresh; otherwise the session is destroyed and the response is 401 with the
  error \<open>Session Expired\<close>.
\<close>

theorem session_path_expiry:
  assumes "session req = Some sd" and "userId sd = Some uid" and "uid \<noteq> []"
  shows "requireAuth cfg now refreshed req =
    (case lastActivity sd of
       None \<Rightarrow> Reply (JsonError 401 ''Session Expired'' None) (req\<lparr>session := None\<rparr>)
     | Some la \<Rightarrow>
         if now - la < session_timeout cfg
         then Next (req\<lparr>session := Some (sd\<lparr>lastActivity := Some refreshed\<rparr>)\<rparr>)
         else Reply (JsonError 401 ''Session Expired'' None) (req\<lparr>session := None\<rparr>))"
  using assms
  by (simp add: requireAuth_def truthy_def isSessionValid_def updateLastActivity_def
      split: option.split)

text \<open>
  The two sessions of the specification, at \<open>now = 5000000\<close> with the default
  timeout of 3600000 ms: one millisecond beyond the timeout, and one within it.
\<close>

theorem session_path_expiry_witness:
  "requireAuth config 5000000 5000000
     (sessionRequest ''/proxy/status''
        \<lparr>userId = Some [49], userRole = Some ''admin'',
         lastActivity = Some (5000000 - (3600000 + 1))\<rparr>) =
     Reply (JsonError 401 ''Session Expired'' None)
       ((sessionRequest ''/proxy/status''
          \<lparr>userId = Some [49], userRole = Some ''admin'',
           lastActivity = Some (5000000 - (3600000 + 1))\<rparr>)\<lparr>session := None\<rparr>) \<and>
   requireAuth config 5000000 5000000
     (sessionRequest ''/proxy/status''
        \<lparr>userId = Some [49], userRole = Some ''admin'',
         lastActivity = Some (5000000 - (3600000 - 1))\<rparr>) =
     Next (sessionRequest ''/proxy/status''
            \<lparr>userId = Some [49], userRole = Some ''admin'', lastActivity = Some 5000000\<rparr>)"
proof -
  let ?old = "\<lparr>userId = Some [49], userRole = Some ''admin'',
               lastActivity = Some (5000000 - (3600000 + 1))\<rparr>"
  let ?fresh = "\<lparr>userId = Some [49], userRole = Some ''admin'',
               lastActivity = Some (5000000 - (3600000 - 1))\<rparr>"
  have a: "session (sessionRequest ''/proxy/status'' ?old) = Some ?old"
    and b: "session (sessionRequest ''/proxy/status'' ?fresh) = Some ?fresh"
    by (simp_all add: sessionRequest_def)
  have u: "userId ?old = Some [49]" "userId ?fresh = Some [49]" "[49] \<noteq> ([] :: utf16)"
    by simp_all
  from session_path_expiry [OF a u(1) u(3), of config 5000000 5000000]
       session_path_expiry [OF b u(2) u(3), of config 5000000 5000000]
  show ?thesis
    by (simp add: config_def sessionRequest_def)
qed


subsection \<open>The two kinds of credential\<close>

lemma users_cases: "u \<in> set users \<Longrightarrow> u = users ! 0 \<or> u = users ! 1"
  by (auto simp: users_def)

lemma getUserFromSession_created:
  assumes "u \<in> set users"
  shows "getUserFromSession (createSession t u sd) = Some u"
  using users_cases [OF assms]
  by (auto simp: getUserFromSession_def createSession_def truthy_def users_def)

lemma getUserFromSession_refreshed:
  "getUserFromSession (sd\<lparr>lastActivity := la\<rparr>) = getUserFromSession sd"
  by (simp add: getUserFromSession_def)

lemma getUserFromSession_empty: "getUserFromSession emptySession = None"
  by (simp add: getUserFromSession_def emptySession_def truthy_def)

lemma requireAuth_session:
  assumes "u \<in> set users" and "now - t < session_timeout cfg"
  shows "requireAuth cfg now refreshed (sessionRequest p (createSession t u emptySession)) =
    Next (sessionRequest p ((createSession t u emptySession)\<lparr>lastActivity := Some refreshed\<rparr>))"
proof -
  have "user_id u \<noteq> []"
    using users_cases [OF assms(1)] by (auto simp: users_def)
  then show ?thesis
    using assms(2)
    by (simp add: requireAuth_def sessionRequest_def createSession_def truthy_def
        isSessionValid_def updateLastActivity_def)
qed

lemma requireAuth_bearer:
  assumes "now div 1000 < t div 1000 + jwt_expiresIn cfg"
  shows "requireAuth cfg now refreshed (bearerRequest p (generateJWT cfg t u)) =
    Next ((bearerRequest p (generateJWT cfg t u))
      \<lparr>user := Some (TokenClaims
         \<lparr>jwt_userId = user_id u, jwt_username = username u, jwt_role = role u,
          iat = t div 1000, exp = t div 1000 + jwt_expiresIn cfg\<rparr>)\<rparr>)"
  using assms
  by (simp add: requireAuth_def bearerRequest_def plainRequest_def emptySession_def truthy_def
      bearerAuth_def verifyJWT_def generateJWT_def)

text \<open>
  C3 (as amended). For every user of the user table, with a session that has not
  timed out and a token that has not expired: the session resolves to the user's
  entry in the table (id, username, role, permissions), the bearer token to its
  own payload (\<open>userId\<close>, \<open>username\<close>, \<open>role\<close>, and no permissions).
  \<open>requireRole\<close> gives the same outcome for both. \<open>requirePermission\<close> accepts
  the session exactly when the permission is one of the user's, and answers 403
  Forbidden to the token whatever the permission.
\<close>

theorem session_and_token_identity:
  assumes "u \<in> set users"
    and "now - t < session_timeout cfg"
    and "now div 1000 < t div 1000 + jwt_expiresIn cfg"
  shows
    "resolved (requireAuth cfg now refreshed (sessionRequest p (createSession t u emptySession))) =
       Some (TableUser u) \<and>
     resolved (requireAuth cfg now refreshed (bearerRequest p (generateJWT cfg t u))) =
       Some (TokenClaims
         \<lparr>jwt_userId = user_id u, jwt_username = username u, jwt_role = role u,
          iat = t div 1000, exp = t div 1000 + jwt_expiresIn cfg\<rparr>) \<and>
     passes (andThen (requireAuth cfg now refreshed) (requireRole r)
               (sessionRequest p (createSession t u emptySession))) = (role u = r) \<and>
     passes (andThen (requireAuth cfg now refreshed) (requireRole r)
               (bearerRequest p (generateJWT cfg t u))) = (role u = r) \<and>
     passes (andThen (requireAuth cfg now refreshed) (requirePermission perm)
               (sessionRequest p (createSession t u emptySession))) =
       (perm \<in> set (permissions u)) \<and>
     replied (andThen (requireAuth cfg now refreshed) (requirePermission perm)
               (bearerRequest p (generateJWT cfg t u))) =
       Some (JsonError 403 ''Forbidden'' None)"
proof -
  let ?sess = "sessionRequest p (createSession t u emptySession)"
  let ?sess' = "sessionRequest p ((createSession t u emptySession)\<lparr>lastActivity := Some refreshed\<rparr>)"
  let ?bear = "bearerRequest p (generateJWT cfg t u)"
  let ?claims = "\<lparr>jwt_userId = user_id u, jwt_username = username u, jwt_role = role u,
          iat = t div 1000, exp = t div 1000 + jwt_expiresIn cfg\<rparr>"
  let ?bear' = "?bear\<lparr>user := Some (TokenClaims ?claims)\<rparr>"
  have s: "requireAuth cfg now refreshed ?sess = Next ?sess'"
    using assms(1,2) by (rule requireAuth_session)
  have b: "requireAuth cfg now refreshed ?bear = Next ?bear'"
    using assms(3) by (rule requireAuth_bearer)
  have su: "currentUser ((createSession t u emptySession)\<lparr>lastActivity := Some refreshed\<rparr>) ?sess'
      = Some (TableUser u)"
    by (simp add: currentUser_def getUserFromSession_refreshed getUserFromSession_created [OF assms(1)])
  have bu: "currentUser emptySession ?bear' = Some (TokenClaims ?claims)"
    by (simp add: currentUser_def getUserFromSession_empty)
  have ss: "session ?sess' = Some ((createSession t u emptySession)\<lparr>lastActivity := Some refreshed\<rparr>)"
    by (simp add: sessionRequest_def)
  have bs: "session ?bear' = Some emptySession"
    by (simp add: bearerRequest_def plainRequest_def)
  have 1: "resolved (requireAuth cfg now refreshed ?sess) = Some (TableUser u)"
    by (simp add: s resolved_def ss su)
  have 2: "resolved (requireAuth cfg now refreshed ?bear) = Some (TokenClaims ?claims)"
    by (simp add: b resolved_def bs bu)
  have 3: "passes (andThen (requireAuth cfg now refreshed) (requireRole r) ?sess) = (role u = r)"
    by (simp add: andThen_def s requireRole_def ss su roleOf_def passes_def)
  have 4: "passes (andThen (requireAuth cfg now refreshed) (requireRole r) ?bear) = (role u = r)"
    by (simp add: andThen_def b requireRole_def bs bu roleOf_def passes_def)
  have 5: "passes (andThen (requireAuth cfg now refreshed) (requirePermission perm) ?sess) =
      (perm \<in> set (permissions u))"
    by (simp add: andThen_def s requirePermission_def ss su includesPermission_def passes_def)
  have 6: "replied (andThen (requireAuth cfg now refreshed) (requirePermission perm) ?bear) =
      Some (JsonError 403 ''Forbidden'' None)"
    by (simp add: andThen_def b requirePermission_def bs bu includesPermission_def replied_def)
  from 1 2 3 4 5 6 show ?thesis by blast
qed

text \<open>The admin user, one second after login, with the default configuration.\<close>

theorem session_and_token_identity_witness:
  "users ! 0 \<in> set users \<and>
   (1000 :: int) - 0 < session_timeout config \<and>
   (1000 :: int) div 1000 < 0 div 1000 + jwt_expiresIn config \<and>
   passes (andThen (requireAuth config 1000 1000) (requireRole ''admin'')
             (sessionRequest ''/proxy/metrics'' (createSession 0 (users ! 0) emptySession))) \<and>
   passes (andThen (requireAuth config 1000 1000) (requireRole ''admin'')
             (bearerRequest ''/proxy/metrics'' (generateJWT config 0 (users ! 0)))) \<and>
   passes (andThen (requireAuth config 1000 1000) (requirePermission ''write'')
             (sessionRequest ''/proxy/metrics'' (createSession 0 (users ! 0) emptySession))) \<and>
   replied (andThen (requireAuth config 1000 1000) (requirePermission ''write'')
             (bearerRequest ''/proxy/metrics'' (generateJWT config 0 (users ! 0)))) =
     Some (JsonError 403 ''Forbidden'' None)"
proof -
  have a: "users ! 0 \<in> set users" by (simp add: users_def)
  have b: "(1000 :: int) - 0 < session_timeout config" by (simp add: config_def)
  have c: "(1000 :: int) div 1000 < 0 div 1000 + jwt_expiresIn config" by (simp add: config_def)
  have r: "role (users ! 0) = ''admin''" and w: "''write'' \<in> set (permissions (users ! 0))"
    by (simp_all add: users_def)
  from session_and_token_identity [OF a b c, of 1000 "''/proxy/metrics''" "''admin''" "''write''"]
    a b c r w
  show ?thesis by simp
qed

text \<open>
  C3 as stated fails: the admin user has the permission \<open>read\<close>;
  \<open>requirePermission('read')\<close> lets the session through and answers 403 to the
  token issued at the same login.
\<close>

theorem token_lacks_permissions:
  "passes (andThen (requireAuth config 1000 1000) (requirePermission ''read'')
             (sessionRequest ''/proxy/status'' (createSession 0 (users ! 0) emptySession))) \<and>
   andThen (requireAuth config 1000 1000) (requirePermission ''read'')
     (bearerRequest ''/proxy/status'' (generateJWT config 0 (users ! 0))) =
     Reply (JsonError 403 ''Forbidden'' None)
       ((bearerRequest ''/proxy/status'' (generateJWT config 0 (users ! 0)))
          \<lparr>user := Some (TokenClaims
             \<lparr>jwt_userId = [49], jwt_username = ''admin'', jwt_role = ''admin'',
              iat = 0, exp = 86400\<rparr>)\<rparr>)"
  by (simp add: andThen_def requireAuth_def requirePermission_def sessionRequest_def
      bearerRequest_def plainRequest_def emptySession_def createSession_def truthy_def
      isSessionValid_def updateLastActivity_def bearerAuth_def verifyJWT_def generateJWT_def
      currentUser_def getUserFromSession_def includesPermission_def passes_def users_def
      config_def)

end
